theory Spec2Isabelle
  imports Main
begin

section \<open>Data model of the application shell (App.tsx)\<close>

text \<open>
  The client is a set of React components.  Each component keeps its state in hooks;
  an event handler is an \<open>async\<close> function that calls state setters and awaits network
  round-trips.  A handler is embedded as a function from the component state (a record
  of the hook values) and the responses of the backend to the new state, together with
  the list of effects it performed, in program order.  A rejected promise is a value of
  the response type, so every \<open>try\<close>/\<open>catch\<close> branch of the source is a branch here.
\<close>

record document =
  doc_id :: string
  file_name :: string
  created_at :: string
  processed_at :: string
  ocr_document_type :: "string option"

datatype role = User | Assistant | System

record chat_message =
  msg_id :: string
  msg_role :: role
  message :: string
  msg_created_at :: string

text \<open>The hooks of \<open>App\<close>: \<open>useState\<close> values, named as in the source.\<close>

record app_state =
  documents :: "document list"
  selectedDocument :: "document option"
  chatHistory :: "chat_message list"
  isLoading :: bool
  error :: "string option"

text \<open>The requests the shell sends, and the effects a handler run is observed by.\<close>

datatype request =
    GetDocuments
  | GetChatHistory string
  | PostProcess string
  | GetProcessStatus string
  | PostChat string string
  | DeleteChats string

datatype effect =
    Fetch request
  | CallSetError string
  | CallSetSelectedDocument document

text \<open>\<open>Date.now()\<close> and \<open>new Date().toISOString()\<close> at one instant.\<close>

record clock =
  date_now :: nat
  date_iso :: string

text \<open>\<open>Number.prototype.toString()\<close> on a non-negative integer: decimal digits.\<close>

fun toString :: "nat \<Rightarrow> string" where
  "toString n =
     (if n < 10 then [char_of (48 + n)]
      else toString (n div 10) @ [char_of (48 + n mod 10)])"

declare toString.simps [simp del]

subsection \<open>loadDocuments and loadChatHistory\<close>

text \<open>
  A response to \<open>GET /api/documents\<close>: \<open>DocsOk ds\<close> is an OK response whose body has
  \<open>documents = ds\<close> (\<open>None\<close> when the field is missing), \<open>DocsNotOk\<close> a non-OK
  status, \<open>DocsThrow e\<close> a rejected \<open>fetch\<close> or \<open>json()\<close> with message \<open>e\<close>.
\<close>

datatype docs_response = DocsOk "document list option" | DocsNotOk | DocsThrow string

text \<open>\<open>data.documents || []\<close> (an empty array is truthy, so it is kept).\<close>

fun or_empty :: "'a list option \<Rightarrow> 'a list" where
  "or_empty None = []"
| "or_empty (Some xs) = xs"

definition loadDocuments :: "docs_response \<Rightarrow> app_state \<Rightarrow> effect list \<times> app_state" where
  "loadDocuments resp s =
     ([Fetch GetDocuments],
      (case resp of
         DocsOk ds \<Rightarrow> s\<lparr>documents := or_empty ds\<rparr>
       | DocsNotOk \<Rightarrow> s
       | DocsThrow e \<Rightarrow> s))"

datatype history_response = HistOk "chat_message list option" | HistNotOk | HistThrow string

text \<open>
  \<open>loadChatHistory\<close> up to its \<open>await fetch\<close>, and its continuation when the response
  arrives.  The continuation tests nothing but the response: not the document the
  request was made for, nor the document selected by then.
\<close>

definition loadChatHistory_issue :: "string \<Rightarrow> app_state \<Rightarrow> effect list \<times> app_state" where
  "loadChatHistory_issue documentId s =
     ([Fetch (GetChatHistory documentId)], s\<lparr>isLoading := True\<rparr>)"

definition loadChatHistory_resume :: "history_response \<Rightarrow> app_state \<Rightarrow> app_state" where
  "loadChatHistory_resume resp s =
     (case resp of
        HistOk cs \<Rightarrow> s\<lparr>chatHistory := or_empty cs, isLoading := False\<rparr>
      | HistNotOk \<Rightarrow> s\<lparr>chatHistory := [], isLoading := False\<rparr>
      | HistThrow e \<Rightarrow> s\<lparr>chatHistory := [], isLoading := False\<rparr>)"

text \<open>The whole function, when nothing else runs while it is suspended.\<close>

definition loadChatHistory ::
  "string \<Rightarrow> history_response \<Rightarrow> app_state \<Rightarrow> effect list \<times> app_state" where
  "loadChatHistory documentId resp s =
     (case loadChatHistory_issue documentId s of
        (l, s1) \<Rightarrow> (l, loadChatHistory_resume resp s1))"

subsection \<open>handleSendMessage\<close>

text \<open>
  A response to \<open>POST /api/chat/{id}\<close>: \<open>ChatOk m\<close> is an OK response whose body has
  \<open>message = m\<close>; \<open>ChatNotOk\<close> a non-OK status; \<open>ChatThrow e\<close> a rejected
  \<open>fetch\<close> or \<open>json()\<close>.
\<close>

datatype chat_response = ChatOk string | ChatNotOk | ChatThrow string

definition userMessage :: "string \<Rightarrow> clock \<Rightarrow> chat_message" where
  "userMessage text t =
     \<lparr>msg_id = toString (date_now t), msg_role = User, message = text,
      msg_created_at = date_iso t\<rparr>"

definition assistantMessage :: "string \<Rightarrow> clock \<Rightarrow> chat_message" where
  "assistantMessage text t =
     \<lparr>msg_id = toString (date_now t + 1), msg_role = Assistant, message = text,
      msg_created_at = date_iso t\<rparr>"

text \<open>
  The handler up to its only suspension point, the \<open>await fetch\<close>: \<open>None\<close> is the early
  \<open>return\<close> of the guard, \<open>Some (l, s')\<close> the effects and the state at the moment the
  request has been handed to the network and no response has arrived.
\<close>

definition handleSendMessage_issue ::
  "string \<Rightarrow> clock \<Rightarrow> app_state \<Rightarrow> (effect list \<times> app_state) option" where
  "handleSendMessage_issue text t s =
     (case selectedDocument s of
        None \<Rightarrow> None
      | Some d \<Rightarrow>
          Some ([Fetch (PostChat (doc_id d) text)],
                s\<lparr>isLoading := True, chatHistory := chatHistory s @ [userMessage text t]\<rparr>))"

text \<open>
  The continuation after the \<open>await\<close>.  The setters are functional updates
  (\<open>prev => [...prev, m]\<close>), so it acts on the state current when the response arrives.
\<close>

definition handleSendMessage_resume ::
  "chat_response \<Rightarrow> clock \<Rightarrow> app_state \<Rightarrow> effect list \<times> app_state" where
  "handleSendMessage_resume resp t s =
     (case resp of
        ChatOk m \<Rightarrow>
          ([], s\<lparr>chatHistory := chatHistory s @ [assistantMessage m t], isLoading := False\<rparr>)
      | ChatNotOk \<Rightarrow>
          ([CallSetError ''Failed to send message''],
           s\<lparr>error := Some ''Failed to send message'', isLoading := False\<rparr>)
      | ChatThrow e \<Rightarrow>
          ([CallSetError (''Failed to send message: '' @ e)],
           s\<lparr>error := Some (''Failed to send message: '' @ e), isLoading := False\<rparr>))"

text \<open>The whole handler, when nothing else runs while it is suspended.\<close>

definition handleSendMessage ::
  "string \<Rightarrow> clock \<Rightarrow> chat_response \<Rightarrow> clock \<Rightarrow> app_state \<Rightarrow> effect list \<times> app_state" where
  "handleSendMessage text t1 resp t2 s =
     (case handleSendMessage_issue text t1 s of
        None \<Rightarrow> ([], s)
      | Some (l1, s1) \<Rightarrow>
          (case handleSendMessage_resume resp t2 s1 of (l2, s2) \<Rightarrow> (l1 @ l2, s2)))"

subsection \<open>handleFileUploaded and its poller pollForCompletion\<close>

text \<open>
  A response to \<open>GET /api/process/status/{fileId}\<close>.  \<open>StatusOk st did\<close> is an OK
  response whose body has \<open>status = st\<close> and \<open>document_id = did\<close> (\<open>None\<close> when absent);
  \<open>Status404\<close> is status 404; \<open>StatusNotOk\<close> any other non-OK status;
  \<open>StatusThrow e\<close> a rejected \<open>fetch\<close> or \<open>json()\<close> (a transport failure).
\<close>

datatype status_response =
    StatusOk string "string option"
  | Status404
  | StatusNotOk
  | StatusThrow string

text \<open>JavaScript truthiness of an optional string: present and not empty.\<close>

fun truthy :: "string option \<Rightarrow> bool" where
  "truthy None = False"
| "truthy (Some v) = (v \<noteq> [])"

text \<open>
  The predicate given to \<open>find\<close> by the poller:
  \<open>d.file_name === fileData.filename || (statusData.document_id && d.id === statusData.document_id)\<close>.
\<close>

definition matches_polled :: "string \<Rightarrow> string option \<Rightarrow> document \<Rightarrow> bool" where
  "matches_polled fname document_id d \<longleftrightarrow>
     file_name d = fname \<or> (truthy document_id \<and> Some (doc_id d) = document_id)"

text \<open>
  The predicate of the synchronous path:
  \<open>d.file_name === fileData.filename || d.id === fileData.rawResponse.document_id\<close>.
\<close>

definition matches_immediate :: "string \<Rightarrow> string option \<Rightarrow> document \<Rightarrow> bool" where
  "matches_immediate fname document_id d \<longleftrightarrow>
     file_name d = fname \<or> Some (doc_id d) = document_id"

definition maxAttempts :: nat where
  "maxAttempts = 60"

text \<open>
  What the poller sees of the world.  \<open>status_resp k\<close> answers the status check made when
  \<open>attempts = k\<close>; \<open>load_resp\<close> and \<open>updated_resp\<close> answer the two document-list
  requests made after a \<open>done\<close>.  The poller is suspended at each \<open>await\<close>, and other
  handlers of the page run meanwhile: \<open>interleaved k\<close> is what they do to the state
  while the poller waits for check \<open>k\<close>.
\<close>

record poll_env =
  file_id :: string
  filename :: string
  status_resp :: "nat \<Rightarrow> status_response"
  load_resp :: docs_response
  updated_resp :: docs_response
  interleaved :: "nat \<Rightarrow> app_state \<Rightarrow> app_state"

datatype loop_exit = Continue | Break | Return | Throw string

text \<open>
  How an \<open>async\<close> function ends: \<open>Returned\<close>, or \<open>Threw e\<close>, a rejected promise.
  \<open>pollForCompletion()\<close> is called without \<open>await\<close>, so its rejection reaches no
  \<open>catch\<close> block.
\<close>

datatype outcome = Returned | Threw string

definition msg_not_found :: string where
  "msg_not_found = ''Processing file not found on server. Please re-upload and try again.''"

definition msg_failed :: string where
  "msg_failed = ''Document processing failed. Please try again.''"

definition msg_timed_out :: string where
  "msg_timed_out = ''Document processing timed out. Please check and try again.''"

text \<open>
  Selecting the refreshed entry, shared by the poller and the synchronous path: the
  second \<open>GET /api/documents\<close> and what follows it.  \<open>Break\<close> stands for falling out of
  the \<open>if\<close> without a selection.
\<close>

definition select_new_doc ::
  "(document \<Rightarrow> bool) \<Rightarrow> docs_response \<Rightarrow> app_state \<Rightarrow> loop_exit \<times> effect list \<times> app_state" where
  "select_new_doc pred resp s =
     (case resp of
        DocsThrow e \<Rightarrow> (Throw e, [Fetch GetDocuments], s)
      | DocsNotOk \<Rightarrow> (Break, [Fetch GetDocuments], s)
      | DocsOk ds \<Rightarrow>
          (case find pred (or_empty ds) of
             None \<Rightarrow> (Break, [Fetch GetDocuments], s)
           | Some newDoc \<Rightarrow>
               (Return, [Fetch GetDocuments, CallSetSelectedDocument newDoc],
                s\<lparr>documents := or_empty ds, selectedDocument := Some newDoc,
                  isLoading := False\<rparr>)))"

text \<open>The loop body from the arrival of the status response to the end of the iteration.\<close>

definition poll_body ::
  "poll_env \<Rightarrow> status_response \<Rightarrow> app_state \<Rightarrow> loop_exit \<times> effect list \<times> app_state" where
  "poll_body env r s =
     (case r of
        StatusThrow e \<Rightarrow> (Throw e, [], s)
      | Status404 \<Rightarrow> (Break, [CallSetError msg_not_found], s\<lparr>error := Some msg_not_found\<rparr>)
      | StatusNotOk \<Rightarrow> (Continue, [], s)
      | StatusOk st document_id \<Rightarrow>
          if st = ''done'' then
            (case loadDocuments (load_resp env) s of
               (l1, s1) \<Rightarrow>
                 (case select_new_doc (matches_polled (filename env) document_id)
                         (updated_resp env) s1 of
                    (x, l2, s2) \<Rightarrow> (x, l1 @ l2, s2)))
          else if st = ''error'' then
            (Break, [CallSetError msg_failed], s\<lparr>error := Some msg_failed\<rparr>)
          else (Continue, [], s))"

text \<open>The statements after the \<open>while\<close> loop.\<close>

definition after_loop :: "nat \<Rightarrow> app_state \<Rightarrow> effect list \<times> app_state" where
  "after_loop attempts s =
     (if attempts \<ge> maxAttempts
      then ([CallSetError msg_timed_out], s\<lparr>error := Some msg_timed_out, isLoading := False\<rparr>)
      else ([], s\<lparr>isLoading := False\<rparr>))"

text \<open>
  \<open>pollForCompletion\<close> from the loop test with the local counter at \<open>attempts\<close>.
  The loop ends because \<open>maxAttempts - attempts\<close> decreases.
\<close>

function pollLoop :: "poll_env \<Rightarrow> nat \<Rightarrow> app_state \<Rightarrow> outcome \<times> effect list \<times> app_state" where
  "pollLoop env attempts s =
     (if attempts < maxAttempts then
        (case poll_body env (status_resp env attempts) (interleaved env attempts s) of
           (Continue, l, s1) \<Rightarrow>
             (case pollLoop env (Suc attempts) s1 of
                (out, l2, s2) \<Rightarrow> (out, Fetch (GetProcessStatus (file_id env)) # l @ l2, s2))
         | (Break, l, s1) \<Rightarrow>
             (case after_loop attempts s1 of
                (l3, s3) \<Rightarrow> (Returned, Fetch (GetProcessStatus (file_id env)) # l @ l3, s3))
         | (Return, l, s1) \<Rightarrow> (Returned, Fetch (GetProcessStatus (file_id env)) # l, s1)
         | (Throw e, l, s1) \<Rightarrow> (Threw e, Fetch (GetProcessStatus (file_id env)) # l, s1))
      else (case after_loop attempts s of (l3, s3) \<Rightarrow> (Returned, l3, s3)))"
  by pat_completeness auto
termination
  by (relation "measure (\<lambda>(env, attempts, s). maxAttempts - attempts)") auto

declare pollLoop.simps [simp del]

definition pollForCompletion :: "poll_env \<Rightarrow> app_state \<Rightarrow> outcome \<times> effect list \<times> app_state" where
  "pollForCompletion env s = pollLoop env 0 s"

text \<open>
  Reading a run: the status checks it sent and the terminal callbacks it made (an error
  message shown or a document selected).  A response is pending when the loop goes on
  after it: an OK body whose status is neither \<open>done\<close> nor \<open>error\<close>, or a non-OK
  status other than 404.
\<close>

fun is_status_check :: "effect \<Rightarrow> bool" where
  "is_status_check (Fetch (GetProcessStatus i)) = True"
| "is_status_check x = False"

fun is_terminal :: "effect \<Rightarrow> bool" where
  "is_terminal (CallSetError e) = True"
| "is_terminal (CallSetSelectedDocument d) = True"
| "is_terminal x = False"

definition status_checks :: "effect list \<Rightarrow> nat" where
  "status_checks l = length (filter is_status_check l)"

definition terminal_callbacks :: "effect list \<Rightarrow> nat" where
  "terminal_callbacks l = length (filter is_terminal l)"

fun is_pending :: "status_response \<Rightarrow> bool" where
  "is_pending (StatusOk st did) = (st \<noteq> ''done'' \<and> st \<noteq> ''error'')"
| "is_pending StatusNotOk = True"
| "is_pending Status404 = False"
| "is_pending (StatusThrow e) = False"

text \<open>
  A \<open>done\<close> answer is resolvable when the second document-list request is answered OK
  with a list that holds an entry matching the upload.  A status response is well
  answered when it is not a rejected request and, if it says \<open>done\<close>, is resolvable.
\<close>

definition resolvable :: "poll_env \<Rightarrow> string option \<Rightarrow> bool" where
  "resolvable env document_id \<longleftrightarrow>
     (case updated_resp env of
        DocsOk ds \<Rightarrow> find (matches_polled (filename env) document_id) (or_empty ds) \<noteq> None
      | DocsNotOk \<Rightarrow> False
      | DocsThrow e \<Rightarrow> False)"

fun well_answered :: "poll_env \<Rightarrow> status_response \<Rightarrow> bool" where
  "well_answered env (StatusOk st document_id) =
     (if st = ''done'' then resolvable env document_id else True)"
| "well_answered env Status404 = True"
| "well_answered env StatusNotOk = True"
| "well_answered env (StatusThrow e) = False"

text \<open>
  The descriptor handed over by the upload component: \<open>raw_result\<close> is the truthiness
  of \<open>rawResponse && rawResponse.result\<close>, \<open>raw_document_id\<close> is
  \<open>rawResponse.document_id\<close>.
\<close>

record file_data =
  fd_file_id :: string
  fd_filename :: string
  raw_result :: bool
  raw_document_id :: "string option"

text \<open>
  A response to \<open>POST /api/process/{fileId}\<close>: status 202; an OK status whose body has
  a truthy (\<open>True\<close>) or falsy \<open>result\<close>; another status; a rejected promise.
\<close>

datatype process_response = Proc202 | ProcOk bool | ProcOther | ProcThrow string

text \<open>
  \<open>handleFileUploaded\<close>.  Its \<open>catch\<close> covers what it awaits itself; the poller it
  starts is not awaited.  In the immediate-completion branch \<open>documents.find\<close> reads the
  variable \<open>documents\<close> of the closure: the list of the render in which the handler
  was created, given here as \<open>captured\<close>.  It is neither the list just fetched by
  \<open>loadDocuments\<close> nor necessarily the list of the state the handler starts in.
\<close>

definition handleFileUploaded ::
  "document list \<Rightarrow> file_data \<Rightarrow> process_response \<Rightarrow> poll_env \<Rightarrow> app_state
     \<Rightarrow> outcome \<times> effect list \<times> app_state" where
  "handleFileUploaded captured fileData processResponse env s =
     (let s0 = s\<lparr>isLoading := True, error := None\<rparr> in
      if raw_result fileData then
        (case loadDocuments (load_resp env) s0 of
           (l1, s1) \<Rightarrow>
             (case select_new_doc
                     (matches_immediate (fd_filename fileData) (raw_document_id fileData))
                     (updated_resp env) s1 of
                (Throw e, l2, s2) \<Rightarrow>
                  (Returned, l1 @ l2 @ [CallSetError (''Upload failed: '' @ e)],
                   s2\<lparr>error := Some (''Upload failed: '' @ e), isLoading := False\<rparr>)
              | (Return, l2, s2) \<Rightarrow> (Returned, l1 @ l2, s2)
              | (x, l2, s2) \<Rightarrow> (Returned, l1 @ l2, s2\<lparr>isLoading := False\<rparr>)))
      else
        (case processResponse of
           ProcThrow e \<Rightarrow>
             (Returned,
              [Fetch (PostProcess (fd_file_id fileData)), CallSetError (''Upload failed: '' @ e)],
              s0\<lparr>error := Some (''Upload failed: '' @ e), isLoading := False\<rparr>)
         | Proc202 \<Rightarrow>
             (case pollForCompletion
                     (env\<lparr>file_id := fd_file_id fileData, filename := fd_filename fileData\<rparr>) s0 of
                (out, l, s1) \<Rightarrow> (out, Fetch (PostProcess (fd_file_id fileData)) # l, s1))
         | ProcOk result \<Rightarrow>
             if result then
               (case loadDocuments (load_resp env) s0 of
                  (l1, s1) \<Rightarrow>
                    (case find (\<lambda>d. file_name d = fd_filename fileData) captured of
                       None \<Rightarrow>
                         (Returned, Fetch (PostProcess (fd_file_id fileData)) # l1,
                          s1\<lparr>isLoading := False\<rparr>)
                     | Some newDoc \<Rightarrow>
                         (Returned,
                          Fetch (PostProcess (fd_file_id fileData)) # l1
                            @ [CallSetSelectedDocument newDoc],
                          s1\<lparr>selectedDocument := Some newDoc, isLoading := False\<rparr>)))
             else (Returned, [Fetch (PostProcess (fd_file_id fileData))], s0\<lparr>isLoading := False\<rparr>)
         | ProcOther \<Rightarrow>
             (Returned,
              [Fetch (PostProcess (fd_file_id fileData)),
               CallSetError ''Failed to process document. Please try again.''],
              s0\<lparr>error := Some ''Failed to process document. Please try again.'',
                 isLoading := False\<rparr>)))"

text \<open>
  A user picks a document in the sidebar: \<open>setSelectedDocument(d)\<close>, then the effect on
  \<open>selectedDocument\<close> starts \<open>loadChatHistory\<close>.  React compares by \<open>Object.is\<close>:
  when \<open>d\<close> is the very object already selected (\<open>same_object\<close>), the update is
  skipped and the effect does not run.
\<close>

definition onSelectDocument_issue :: "document \<Rightarrow> bool \<Rightarrow> app_state \<Rightarrow> effect list \<times> app_state" where
  "onSelectDocument_issue d same_object s =
     (if same_object \<and> selectedDocument s = Some d then ([], s)
      else loadChatHistory_issue (doc_id d) (s\<lparr>selectedDocument := Some d\<rparr>))"

text \<open>The selection together with the answer to the history request it starts.\<close>

definition onSelectDocument ::
  "document \<Rightarrow> bool \<Rightarrow> history_response \<Rightarrow> app_state \<Rightarrow> app_state" where
  "onSelectDocument d same_object resp s =
     (if same_object \<and> selectedDocument s = Some d then s
      else loadChatHistory_resume resp (snd (onSelectDocument_issue d same_object s)))"

section \<open>The ProcessingStatus component and its interval poller pollStatus\<close>

text \<open>
  Response bodies are untyped JSON, and the component tests them by JavaScript
  truthiness, so they are embedded as JSON values.
\<close>

datatype json =
    JNull
  | JBool bool
  | JNum int
  | JStr string
  | JArr "json list"
  | JObj "(string \<times> json) list"

text \<open>
  \<open>data.f\<close> on a value that is not \<open>null\<close>: \<open>None\<close> is \<open>undefined\<close>.  Of a repeated
  key the last occurrence counts, as for \<open>JSON.parse\<close>.
\<close>

fun field :: "string \<Rightarrow> json \<Rightarrow> json option" where
  "field f (JObj kvs) = map_of (rev kvs) f"
| "field f v = None"

fun js_truthy :: "json \<Rightarrow> bool" where
  "js_truthy JNull = False"
| "js_truthy (JBool b) = b"
| "js_truthy (JNum n) = (n \<noteq> 0)"
| "js_truthy (JStr v) = (v \<noteq> [])"
| "js_truthy (JArr vs) = True"
| "js_truthy (JObj kvs) = True"

text \<open>\<open>payload && payload.result ? payload.result : payload\<close>.\<close>

definition unwrap_result :: "json \<Rightarrow> json" where
  "unwrap_result payload =
     (if js_truthy payload then
        (case field ''result'' payload of
           Some r \<Rightarrow> if js_truthy r then r else payload
         | None \<Rightarrow> payload)
      else payload)"

text \<open>\<open>data.status === 'done' && (data.result || data.result === 0)\<close>, for \<open>data\<close> not \<open>null\<close>.\<close>

definition is_done :: "json \<Rightarrow> bool" where
  "is_done data \<longleftrightarrow>
     field ''status'' data = Some (JStr ''done'')
     \<and> (case field ''result'' data of Some r \<Rightarrow> js_truthy r \<or> r = JNum 0 | None \<Rightarrow> False)"

text \<open>\<open>data.result || data\<close>.\<close>

definition done_result :: "json \<Rightarrow> json" where
  "done_result data =
     (case field ''result'' data of
        Some r \<Rightarrow> if js_truthy r then r else data
      | None \<Rightarrow> data)"

text \<open>
  How the \<open>axios\<close> promises settle.  \<open>PostResolved st data\<close>: the POST resolved with
  status \<open>st\<close> and body \<open>data\<close>.  \<open>PostRejected st err\<close>: it rejected, with
  \<open>err.response?.status = st\<close> and \<open>err.response?.data?.error = err\<close>.
  \<open>GetResolved data\<close> and \<open>GetRejected e\<close>: the same for a status request.
\<close>

datatype post_result = PostResolved nat json | PostRejected "nat option" "string option"

datatype get_result = GetResolved json | GetRejected string

text \<open>
  What an observer of the component sees, in order: a status request sent, a callback
  prop invoked, the cleanup of the effect run (the cancellation).
\<close>

datatype ps_obs = StatusCheck | OnComplete json | OnError string | Cancelled

text \<open>
  One effect run of the component.  \<open>cancelled\<close> is the local flag of the run,
  \<open>pollingRef\<close> the \<open>useRef\<close> cell, \<open>statusMessage\<close> the \<open>useState\<close> value.
  The rest is the part of the browser the run acts on: \<open>intervals\<close> are the ids of the
  live \<open>setInterval\<close> timers, \<open>next_timer\<close> the next id \<open>setInterval\<close> returns (ids are
  positive), \<open>post_pending\<close> tells that the POST has no response yet, \<open>pending_gets\<close>
  counts the status requests without a response.
\<close>

record ps_state =
  cancelled :: bool
  pollingRef :: "nat option"
  statusMessage :: string
  intervals :: "nat list"
  next_timer :: nat
  post_pending :: bool
  pending_gets :: nat
  ps_trace :: "ps_obs list"

text \<open>
  The events of the run: the POST settles, the timer with an id fires, a status request
  settles, React runs the cleanup (unmount, or a change of \<open>fileId\<close> or of a callback).
\<close>

datatype ps_event = PostResponse post_result | Tick nat | GetResponse get_result | Cleanup

text \<open>The state once \<open>startProcessing()\<close> has sent the POST and is suspended on it.\<close>

definition ps_init :: ps_state where
  "ps_init = \<lparr>cancelled = False, pollingRef = None, statusMessage = ''Processing...'',
              intervals = [], next_timer = 1, post_pending = True, pending_gets = 0,
              ps_trace = []\<rparr>"

text \<open>\<open>if (pollingRef.current) window.clearInterval(pollingRef.current)\<close>.\<close>

definition clear_current :: "ps_state \<Rightarrow> ps_state" where
  "clear_current s =
     (case pollingRef s of
        None \<Rightarrow> s
      | Some i \<Rightarrow> if i \<noteq> 0 then s\<lparr>intervals := removeAll i (intervals s)\<rparr> else s)"

text \<open>\<open>pollStatus\<close>: drop the timer in the cell, start a new one and store its id.\<close>

definition pollStatus :: "ps_state \<Rightarrow> ps_state" where
  "pollStatus s =
     (let s1 = clear_current s in
      s1\<lparr>intervals := intervals s1 @ [next_timer s1],
         pollingRef := Some (next_timer s1),
         next_timer := Suc (next_timer s1)\<rparr>)"

text \<open>The progress text shown after a 202 (the dash of the source written in ASCII).\<close>

definition msg_started :: string where
  "msg_started = ''Processing started - checking status...''"

text \<open>The continuation of \<open>startProcessing\<close> after \<open>await axios.post\<close>.\<close>

definition startProcessing_resume :: "post_result \<Rightarrow> ps_state \<Rightarrow> ps_state" where
  "startProcessing_resume r s =
     (case r of
        PostResolved st payload \<Rightarrow>
          if st = 200 then
            (if \<not> cancelled s then s\<lparr>ps_trace := ps_trace s @ [OnComplete (unwrap_result payload)]\<rparr>
             else s)
          else if st = 202 then pollStatus (s\<lparr>statusMessage := msg_started\<rparr>)
          else
            (if \<not> cancelled s then s\<lparr>ps_trace := ps_trace s @ [OnComplete (unwrap_result payload)]\<rparr>
             else s)
      | PostRejected st err \<Rightarrow>
          if st = Some 202 then pollStatus (s\<lparr>statusMessage := msg_started\<rparr>)
          else if \<not> cancelled s then
            s\<lparr>ps_trace := ps_trace s @
                 [OnError (if truthy err then the err else ''Processing failed. Please try again.'')]\<rparr>
          else s)"

text \<open>
  The interval callback after \<open>await axios.get\<close>.  Reading \<open>data.status\<close> of a \<open>null\<close>
  body throws inside the \<open>try\<close>, which ends in the same \<open>catch\<close> as a rejected request.
\<close>

definition tick_resume :: "get_result \<Rightarrow> ps_state \<Rightarrow> ps_state" where
  "tick_resume r s =
     (case r of
        GetRejected e \<Rightarrow> s
      | GetResolved data \<Rightarrow>
          if data = JNull then s
          else if is_done data then
            (let s1 = clear_current s in
             s1\<lparr>pollingRef := (if pollingRef s1 = Some 0 then Some 0 else None),
                ps_trace := ps_trace s1 @ [OnComplete (done_result data)]\<rparr>)
          else s)"

text \<open>The function returned by the effect.\<close>

definition cleanup :: "ps_state \<Rightarrow> ps_state" where
  "cleanup s =
     (let s1 = clear_current (s\<lparr>cancelled := True\<rparr>) in
      s1\<lparr>pollingRef := (if pollingRef s1 = Some 0 then Some 0 else None),
         ps_trace := ps_trace s1 @ [Cancelled]\<rparr>)"

text \<open>
  One event.  A response can only arrive for a request that is out, and only a live timer
  fires; an event that cannot happen in a state leaves it alone.
\<close>

fun ps_step :: "ps_state \<Rightarrow> ps_event \<Rightarrow> ps_state" where
  "ps_step s (PostResponse r) =
     (if post_pending s then startProcessing_resume r (s\<lparr>post_pending := False\<rparr>) else s)"
| "ps_step s (Tick i) =
     (if i \<in> set (intervals s)
      then s\<lparr>pending_gets := Suc (pending_gets s), ps_trace := ps_trace s @ [StatusCheck]\<rparr>
      else s)"
| "ps_step s (GetResponse r) =
     (if pending_gets s = 0 then s
      else tick_resume r (s\<lparr>pending_gets := pending_gets s - 1\<rparr>))"
| "ps_step s Cleanup = cleanup s"

definition ps_run :: "ps_event list \<Rightarrow> ps_state \<Rightarrow> ps_state" where
  "ps_run evs s = foldl ps_step s evs"

text \<open>
  The settled status requests the interval callback does nothing on: a rejected request,
  a \<open>null\<close> body, a body that does not pass the \<open>done\<close> test.
\<close>

fun ignored :: "get_result \<Rightarrow> bool" where
  "ignored (GetRejected e) = True"
| "ignored (GetResolved data) = (data = JNull \<or> \<not> is_done data)"

section \<open>The clause visualizer and the clause panel of the chat view\<close>

datatype risk = Low | Medium | High

text \<open>
  \<open>Clause\<close> of ClauseVisualizer.tsx.  Optional fields are options; the generated
  artifacts are JSON values.
\<close>

record clause =
  clause_id :: string
  clause_text :: string
  clause_risk :: risk
  clause_highlights :: "string list option"
  clause_headline :: "string option"
  start_pos :: "int option"
  end_pos :: "int option"
  scenarios :: "json list option"
  legal_references :: "json list option"

subsection \<open>The enrichment effect of ClauseVisualizer\<close>

text \<open>The two caches of the visualizer, keyed by clause id.\<close>

record cv_state =
  scenariosById :: "string \<rightharpoonup> json list"
  referencesById :: "string \<rightharpoonup> json list"

text \<open>
  The two enrichment requests.  The body sent holds the clause text, the document type
  and the risk; the first argument here is the id of the clause the request was sent
  for, which is what the caches are keyed by.
\<close>

datatype enrich_request =
    PostWhatIf string string string risk
  | PostLegalGraph string string string risk

text \<open>
  A response to an enrichment request: OK with the array of the body (\<open>None\<close> when the
  field is missing), a non-OK status, or a rejected \<open>fetch\<close> or \<open>json()\<close>.
\<close>

datatype enrich_response = EnrichOk "json list option" | EnrichNotOk | EnrichThrow string

text \<open>
  What one call of \<open>fetchForClause\<close> meets: the two responses, and the value of the
  flag \<open>mounted\<close> of its effect run when each of them arrives.
\<close>

record enrich_env =
  scen_resp :: enrich_response
  scen_mounted :: bool
  ref_resp :: enrich_response
  ref_mounted :: bool

text \<open>\<open>!xs || xs.length === 0\<close>.\<close>

fun lacks :: "'a list option \<Rightarrow> bool" where
  "lacks None = True"
| "lacks (Some xs) = (xs = [])"

text \<open>
  The first and the second half of the \<open>try\<close> block of \<open>fetchForClause\<close>.  The
  boolean tells whether the half ended normally; an exception skips what follows it.
\<close>

definition fetch_scenarios ::
  "string \<Rightarrow> enrich_env \<Rightarrow> clause \<Rightarrow> cv_state \<Rightarrow> bool \<times> enrich_request list \<times> cv_state" where
  "fetch_scenarios documentType env c st =
     (if lacks (scenarios c) \<and> clause_text c \<noteq> [] then
        (case scen_resp env of
           EnrichThrow e \<Rightarrow>
             (False, [PostWhatIf (clause_id c) (clause_text c) documentType (clause_risk c)], st)
         | EnrichNotOk \<Rightarrow>
             (True, [PostWhatIf (clause_id c) (clause_text c) documentType (clause_risk c)], st)
         | EnrichOk None \<Rightarrow>
             (True, [PostWhatIf (clause_id c) (clause_text c) documentType (clause_risk c)], st)
         | EnrichOk (Some sc) \<Rightarrow>
             (True, [PostWhatIf (clause_id c) (clause_text c) documentType (clause_risk c)],
              if scen_mounted env
              then st\<lparr>scenariosById := (scenariosById st)(clause_id c \<mapsto> sc)\<rparr> else st))
      else if \<not> lacks (scenarios c) then
        (True, [],
         if scen_mounted env
         then st\<lparr>scenariosById := (scenariosById st)(clause_id c \<mapsto> or_empty (scenarios c))\<rparr>
         else st)
      else (True, [], st))"

definition fetch_references ::
  "string \<Rightarrow> enrich_env \<Rightarrow> clause \<Rightarrow> cv_state \<Rightarrow> enrich_request list \<times> cv_state" where
  "fetch_references documentType env c st =
     (if lacks (legal_references c) \<and> clause_text c \<noteq> [] then
        (case ref_resp env of
           EnrichOk (Some refs) \<Rightarrow>
             ([PostLegalGraph (clause_id c) (clause_text c) documentType (clause_risk c)],
              if ref_mounted env
              then st\<lparr>referencesById := (referencesById st)(clause_id c \<mapsto> refs)\<rparr> else st)
         | other \<Rightarrow>
             ([PostLegalGraph (clause_id c) (clause_text c) documentType (clause_risk c)], st))
      else if \<not> lacks (legal_references c) then
        ([],
         if ref_mounted env
         then st\<lparr>referencesById :=
                    (referencesById st)(clause_id c \<mapsto> or_empty (legal_references c))\<rparr>
         else st)
      else ([], st))"

definition fetchForClause ::
  "string \<Rightarrow> enrich_env \<Rightarrow> clause \<Rightarrow> cv_state \<Rightarrow> enrich_request list \<times> cv_state" where
  "fetchForClause documentType env c st =
     (case fetch_scenarios documentType env c st of
        (False, l1, st1) \<Rightarrow> (l1, st1)
      | (True, l1, st1) \<Rightarrow>
          (case fetch_references documentType env c st1 of (l2, st2) \<Rightarrow> (l1 @ l2, st2)))"

text \<open>
  One run of the effect: \<open>clauses.forEach(c => fetchForClause(c))\<close>, where \<open>envs k\<close> is
  what the call for the clause at position \<open>k\<close> meets.  The calls overlap in time; the
  requests are listed clause by clause, which keeps how many are sent for each clause,
  and the cache updates, all functional, are applied in the same order.
\<close>

fun enrich_from ::
  "string \<Rightarrow> (nat \<Rightarrow> enrich_env) \<Rightarrow> nat \<Rightarrow> clause list \<Rightarrow> cv_state
     \<Rightarrow> enrich_request list \<times> cv_state" where
  "enrich_from documentType envs k [] st = ([], st)"
| "enrich_from documentType envs k (c # cs) st =
     (case fetchForClause documentType (envs k) c st of
        (l1, st1) \<Rightarrow>
          (case enrich_from documentType envs (Suc k) cs st1 of (l2, st2) \<Rightarrow> (l1 @ l2, st2)))"

definition enrich_effect ::
  "string \<Rightarrow> (nat \<Rightarrow> enrich_env) \<Rightarrow> clause list \<Rightarrow> cv_state \<Rightarrow> enrich_request list \<times> cv_state" where
  "enrich_effect documentType envs cs st = enrich_from documentType envs 0 cs st"

text \<open>
  The tests under which \<open>fetchForClause\<close> sends a request: the clause object carries
  no artifact of the kind, and has text.
\<close>

definition needs_scenarios :: "clause \<Rightarrow> bool" where
  "needs_scenarios c \<longleftrightarrow> lacks (scenarios c) \<and> clause_text c \<noteq> []"

definition needs_references :: "clause \<Rightarrow> bool" where
  "needs_references c \<longleftrightarrow> lacks (legal_references c) \<and> clause_text c \<noteq> []"

text \<open>The requests of a list that were sent for a given clause id, by kind.\<close>

fun is_whatif_for :: "string \<Rightarrow> enrich_request \<Rightarrow> bool" where
  "is_whatif_for i (PostWhatIf j txt ty r) = (i = j)"
| "is_whatif_for i (PostLegalGraph j txt ty r) = False"

fun is_legal_for :: "string \<Rightarrow> enrich_request \<Rightarrow> bool" where
  "is_legal_for i (PostLegalGraph j txt ty r) = (i = j)"
| "is_legal_for i (PostWhatIf j txt ty r) = False"

subsection \<open>Persist notification and undo in ChatInterface\<close>

text \<open>The action a toast offers: undo of the given clause ids of a document.\<close>

datatype toast_action = Undo string "string list"

record toast =
  toast_id :: string
  toast_message :: string
  actionLabel :: "string option"
  onAction :: "toast_action option"

text \<open>The hooks of the clause panel of \<open>ChatInterface\<close>.\<close>

record ci_state =
  clauses :: "clause list"
  persistedByDocument :: "string \<rightharpoonup> bool"
  showVisualizer :: bool
  highlights :: "string \<rightharpoonup> string list"
  toast :: "toast option"

text \<open>The highlight map built from the inserted clauses; a later clause overwrites an id.\<close>

fun highlights_of :: "clause list \<Rightarrow> (string \<rightharpoonup> string list) \<Rightarrow> (string \<rightharpoonup> string list)" where
  "highlights_of [] m = m"
| "highlights_of (c # cs) m =
     highlights_of cs
       (if \<not> lacks (clause_highlights c) then m(clause_id c \<mapsto> or_empty (clause_highlights c))
        else if clause_text c \<noteq> [] then m(clause_id c \<mapsto> [take 200 (clause_text c)])
        else m)"

text \<open>\<open>(inserted || []).map(x => x.id).filter(Boolean)\<close>.\<close>

definition inserted_ids :: "clause list \<Rightarrow> string list" where
  "inserted_ids inserted = filter (\<lambda>i. i \<noteq> []) (map clause_id inserted)"

text \<open>
  The \<open>onPersist\<close> callback given to the visualizer, for the document \<open>document.id\<close> of
  the render it was created in.
\<close>

definition onPersist :: "string \<Rightarrow> clock \<Rightarrow> clause list \<Rightarrow> ci_state \<Rightarrow> ci_state" where
  "onPersist documentId t inserted s =
     (let ids = inserted_ids inserted;
          s1 = s\<lparr>persistedByDocument := (persistedByDocument s)(documentId \<mapsto> True),
                 highlights := highlights_of inserted Map.empty\<rparr>
      in if ids \<noteq> [] then
           s1\<lparr>toast := Some \<lparr>toast_id = toString (date_now t),
                              toast_message = toString (length ids) @ '' clause(s) saved'',
                              actionLabel = Some ''Undo'',
                              onAction = Some (Undo documentId ids)\<rparr>\<rparr>
         else s1)"

text \<open>
  A response to \<open>POST /api/analysis/clauses/{id}/undo\<close>: OK, a non-OK status, or a
  rejected promise (of \<open>fetch\<close>, or of \<open>text()\<close> in the failure branch).
\<close>

datatype undo_response = UndoOk | UndoNotOk | UndoThrow string

text \<open>
  The request of the undo handler: \<open>POST /api/analysis/clauses/{documentId}/undo\<close> with
  the body \<open>{clause_ids: ids}\<close>.
\<close>

datatype ci_request = PostUndo string "string list"

text \<open>
  The \<open>onAction\<close> handler of the undo toast: the request it sends, and the state after its
  continuation has run on the response.  The request is sent whatever the response will be.
\<close>

definition undo ::
  "string \<Rightarrow> string list \<Rightarrow> undo_response \<Rightarrow> ci_state \<Rightarrow> ci_request list \<times> ci_state" where
  "undo documentId ids resp s =
     ([PostUndo documentId ids],
      (case resp of
         UndoOk \<Rightarrow>
           s\<lparr>clauses := filter (\<lambda>c. clause_id c \<notin> set ids) (clauses s),
             persistedByDocument := (persistedByDocument s)(documentId \<mapsto> False)\<rparr>
       | UndoNotOk \<Rightarrow> s
       | UndoThrow e \<Rightarrow> s))"

text \<open>
  Pressing the action button of the toast that is shown (Toast.tsx): \<open>onAction()\<close>
  starts and suspends on its request, \<open>onClose()\<close> clears the toast, and the handler
  resumes when the response arrives.
\<close>

definition press_toast_action :: "undo_response \<Rightarrow> ci_state \<Rightarrow> ci_request list \<times> ci_state" where
  "press_toast_action resp s =
     (case toast s of
        None \<Rightarrow> ([], s)
      | Some t \<Rightarrow>
          (case onAction t of
             None \<Rightarrow> ([], s\<lparr>toast := None\<rparr>)
           | Some (Undo documentId ids) \<Rightarrow> undo documentId ids resp (s\<lparr>toast := None\<rparr>)))"

subsection \<open>Example data\<close>

definition doc_a :: document where
  "doc_a = \<lparr>doc_id = ''d0'', file_name = ''a.pdf'', created_at = ''2024-01-01'',
            processed_at = ''2024-01-01'', ocr_document_type = None\<rparr>"

definition doc_a' :: document where
  "doc_a' = \<lparr>doc_id = ''d1'', file_name = ''a.pdf'', created_at = ''2024-01-02'',
             processed_at = ''2024-01-02'', ocr_document_type = None\<rparr>"

definition doc_b :: document where
  "doc_b = \<lparr>doc_id = ''d2'', file_name = ''b.pdf'', created_at = ''2024-01-03'',
            processed_at = ''2024-01-03'', ocr_document_type = Some ''Contract''\<rparr>"

definition state0 :: app_state where
  "state0 = \<lparr>documents = [doc_b], selectedDocument = None, chatHistory = [],
             isLoading = False, error = None\<rparr>"

definition env_pending :: poll_env where
  "env_pending = \<lparr>file_id = ''f1'', filename = ''a.pdf'',
      status_resp = (\<lambda>k. StatusOk ''pending'' None),
      load_resp = DocsNotOk, updated_resp = DocsNotOk, interleaved = (\<lambda>k s. s)\<rparr>"

definition env_switch :: poll_env where
  "env_switch = \<lparr>file_id = ''f1'', filename = ''a.pdf'',
      status_resp = (\<lambda>k. if k = 0 then StatusOk ''pending'' None else StatusOk ''done'' (Some ''d1'')),
      load_resp = DocsOk (Some [doc_b, doc_a']), updated_resp = DocsOk (Some [doc_b, doc_a']),
      interleaved = (\<lambda>k s. if k = 1 then onSelectDocument doc_b False (HistOk (Some [])) s else s)\<rparr>"

definition env_lost :: poll_env where
  "env_lost = \<lparr>file_id = ''f1'', filename = ''a.pdf'',
      status_resp = (\<lambda>k. StatusOk ''done'' None),
      load_resp = DocsOk (Some [doc_b]), updated_resp = DocsOk (Some [doc_b]),
      interleaved = (\<lambda>k s. s)\<rparr>"


definition clause1 :: clause where
  "clause1 = \<lparr>clause_id = ''c1'', clause_text = ''The tenant shall pay rent monthly.'',
      clause_risk = High, clause_highlights = None, clause_headline = None,
      start_pos = Some 0, end_pos = Some 34, scenarios = None, legal_references = None\<rparr>"

definition clause2 :: clause where
  "clause2 = \<lparr>clause_id = ''c2'', clause_text = ''Either party may terminate.'',
      clause_risk = Low, clause_highlights = Some [''terminate''], clause_headline = None,
      start_pos = None, end_pos = None, scenarios = Some [JStr ''s''], legal_references = None\<rparr>"

definition env_ok :: enrich_env where
  "env_ok = \<lparr>scen_resp = EnrichOk (Some [JStr ''what if rent is late'']), scen_mounted = True,
      ref_resp = EnrichOk (Some [JStr ''Rent Act'']), ref_mounted = True\<rparr>"

definition cv_empty :: cv_state where
  "cv_empty = \<lparr>scenariosById = Map.empty, referencesById = Map.empty\<rparr>"

definition ci_example :: ci_state where
  "ci_example = \<lparr>clauses = [clause1, clause2], persistedByDocument = [''d2'' \<mapsto> False],
      showVisualizer = True, highlights = Map.empty, toast = None\<rparr>"

definition env_gone :: poll_env where
  "env_gone = \<lparr>file_id = ''f1'', filename = ''a.pdf'',
      status_resp = (\<lambda>k. if k < 3 then StatusOk ''pending'' None else Status404),
      load_resp = DocsNotOk, updated_resp = DocsNotOk, interleaved = (\<lambda>k s. s)\<rparr>"

definition env_scenario :: poll_env where
  "env_scenario = \<lparr>file_id = ''f1'', filename = ''a.pdf'',
      status_resp = (\<lambda>k. if k < 3 then StatusOk ''pending'' None
                          else StatusOk ''done'' (Some ''d1'')),
      load_resp = DocsOk (Some [doc_b, doc_a']), updated_resp = DocsOk (Some [doc_b, doc_a']),
      interleaved = (\<lambda>k s. s)\<rparr>"

definition env_failed :: poll_env where
  "env_failed = \<lparr>file_id = ''f1'', filename = ''a.pdf'',
      status_resp = (\<lambda>k. StatusOk ''error'' None),
      load_resp = DocsNotOk, updated_resp = DocsNotOk, interleaved = (\<lambda>k s. s)\<rparr>"


definition msg_b :: chat_message where
  "msg_b = \<lparr>msg_id = ''m1'', msg_role = Assistant, message = ''About b.pdf'',
            msg_created_at = ''2024-01-03''\<rparr>"

section \<open>Properties of the chat session\<close>

lemma handleSendMessage_issue_None:
  "handleSendMessage_issue text t s = None \<longleftrightarrow> selectedDocument s = None"
  by (simp add: handleSendMessage_issue_def split: option.splits)

text \<open>
  C9.  With no document selected, \<open>handleSendMessage\<close> does nothing: for every text,
  clocks and backend behaviour it returns at the guard, performs no effect (no network
  request, no setter call), and leaves the state, with its chat history, loading flag
  and error, as it was.
\<close>

theorem handleSendMessage_no_document:
  assumes "selectedDocument s = None"
  shows "handleSendMessage_issue text t1 s = None
       \<and> handleSendMessage text t1 resp t2 s = ([], s)"
  using assms by (simp add: handleSendMessage_def handleSendMessage_issue_def)

theorem handleSendMessage_no_document_witness:
  "selectedDocument \<lparr>documents = [], selectedDocument = None,
       chatHistory = [userMessage ''hi'' \<lparr>date_now = 5, date_iso = ''t''\<rparr>],
       isLoading = False, error = Some ''old''\<rparr> = None
   \<and> handleSendMessage ''summarize this'' \<lparr>date_now = 7, date_iso = ''t1''\<rparr>
        (ChatOk ''answer'') \<lparr>date_now = 9, date_iso = ''t2''\<rparr>
        \<lparr>documents = [], selectedDocument = None,
         chatHistory = [userMessage ''hi'' \<lparr>date_now = 5, date_iso = ''t''\<rparr>],
         isLoading = False, error = Some ''old''\<rparr>
     = ([], \<lparr>documents = [], selectedDocument = None,
         chatHistory = [userMessage ''hi'' \<lparr>date_now = 5, date_iso = ''t''\<rparr>],
         isLoading = False, error = Some ''old''\<rparr>)"
  using handleSendMessage_no_document
    [of "\<lparr>documents = [], selectedDocument = None,
         chatHistory = [userMessage ''hi'' \<lparr>date_now = 5, date_iso = ''t''\<rparr>],
         isLoading = False, error = Some ''old''\<rparr>"
        "''summarize this''" "\<lparr>date_now = 7, date_iso = ''t1''\<rparr>"
        "ChatOk ''answer''" "\<lparr>date_now = 9, date_iso = ''t2''\<rparr>"]
  by simp

text \<open>
  C10 (counterexample).  The user selects \<open>b.pdf\<close> and, before its history arrives,
  selects \<open>a.pdf\<close>.  The load for \<open>a.pdf\<close> fails and the history is emptied; then the
  answer to the load for \<open>b.pdf\<close> arrives and is applied: \<open>a.pdf\<close> is selected and the
  history shown is that of \<open>b.pdf\<close>.
\<close>

theorem late_history_counterexample:
  "loadChatHistory_resume (HistOk (Some [msg_b]))
     (loadChatHistory_resume HistNotOk
        (snd (onSelectDocument_issue doc_a False
           (snd (onSelectDocument_issue doc_b False
              (state0\<lparr>documents := [doc_a, doc_b]\<rparr>))))))
   = \<lparr>documents = [doc_a, doc_b], selectedDocument = Some doc_a, chatHistory = [msg_b],
      isLoading = False, error = None\<rparr>
   \<and> chatHistory (loadChatHistory_resume HistNotOk
        (snd (onSelectDocument_issue doc_a False
           (snd (onSelectDocument_issue doc_b False
              (state0\<lparr>documents := [doc_a, doc_b]\<rparr>)))))) = []
   \<and> doc_id doc_a \<noteq> doc_id doc_b"
  by (simp add: loadChatHistory_resume_def onSelectDocument_issue_def
      loadChatHistory_issue_def state0_def doc_a_def doc_b_def)

text \<open>
  C10 (as amended).  When the request of \<open>loadChatHistory\<close> fails, by a non-OK response
  or by a rejected promise, its continuation replaces the chat history by the empty list,
  whatever it held, clears the loading flag and changes nothing else; so a document
  selected while nothing else is in flight is shown with an empty history after its
  failed load.  What a response of another request does when it arrives later is not
  part of the statement.
\<close>

theorem loadChatHistory_failure_empties:
  "loadChatHistory_resume HistNotOk s = s\<lparr>chatHistory := [], isLoading := False\<rparr>
   \<and> loadChatHistory_resume (HistThrow e) s = s\<lparr>chatHistory := [], isLoading := False\<rparr>
   \<and> loadChatHistory documentId HistNotOk s
       = ([Fetch (GetChatHistory documentId)], s\<lparr>chatHistory := [], isLoading := False\<rparr>)
   \<and> loadChatHistory documentId (HistThrow e) s
       = ([Fetch (GetChatHistory documentId)], s\<lparr>chatHistory := [], isLoading := False\<rparr>)
   \<and> onSelectDocument d False HistNotOk s
       = s\<lparr>selectedDocument := Some d, chatHistory := [], isLoading := False\<rparr>
   \<and> onSelectDocument d False (HistThrow e) s
       = s\<lparr>selectedDocument := Some d, chatHistory := [], isLoading := False\<rparr>"
  by (simp add: loadChatHistory_resume_def loadChatHistory_def loadChatHistory_issue_def
      onSelectDocument_def onSelectDocument_issue_def)


text \<open>
  C7.  With a document \<open>d\<close> selected, \<open>handleSendMessage\<close> first appends the locally
  built message, of role user and with the text sent, and only then issues the chat
  request for \<open>d\<close>: at the suspension point the history already ends with it.  When
  the response arrives, success appends to the history current at that moment a message
  of role assistant whose text is the one the backend returned, and sets no error;
  failure (non-OK or a rejected promise) sets an error and leaves the history current at
  that moment untouched.  Run without interleaving, the history is the old one followed
  by the user message and, on success, the assistant message; on failure the user
  message stays and the error is set.
\<close>

theorem handleSendMessage_optimistic:
  assumes "selectedDocument s = Some d"
  shows "handleSendMessage_issue text t1 s
           = Some ([Fetch (PostChat (doc_id d) text)],
                   s\<lparr>isLoading := True,
                     chatHistory := chatHistory s @
                       [\<lparr>msg_id = toString (date_now t1), msg_role = User, message = text,
                         msg_created_at = date_iso t1\<rparr>]\<rparr>)
       \<and> handleSendMessage_resume (ChatOk m) t2 s'
           = ([], s'\<lparr>chatHistory := chatHistory s' @
                       [\<lparr>msg_id = toString (date_now t2 + 1), msg_role = Assistant,
                         message = m, msg_created_at = date_iso t2\<rparr>],
                     isLoading := False\<rparr>)
       \<and> handleSendMessage_resume ChatNotOk t2 s'
           = ([CallSetError ''Failed to send message''],
              s'\<lparr>error := Some ''Failed to send message'', isLoading := False\<rparr>)
       \<and> handleSendMessage_resume (ChatThrow e) t2 s'
           = ([CallSetError (''Failed to send message: '' @ e)],
              s'\<lparr>error := Some (''Failed to send message: '' @ e), isLoading := False\<rparr>)
       \<and> handleSendMessage text t1 (ChatOk m) t2 s
           = ([Fetch (PostChat (doc_id d) text)],
              s\<lparr>chatHistory := chatHistory s @
                    [\<lparr>msg_id = toString (date_now t1), msg_role = User, message = text,
                      msg_created_at = date_iso t1\<rparr>,
                     \<lparr>msg_id = toString (date_now t2 + 1), msg_role = Assistant,
                      message = m, msg_created_at = date_iso t2\<rparr>],
                isLoading := False\<rparr>)
       \<and> handleSendMessage text t1 ChatNotOk t2 s
           = ([Fetch (PostChat (doc_id d) text), CallSetError ''Failed to send message''],
              s\<lparr>chatHistory := chatHistory s @
                    [\<lparr>msg_id = toString (date_now t1), msg_role = User, message = text,
                      msg_created_at = date_iso t1\<rparr>],
                error := Some ''Failed to send message'', isLoading := False\<rparr>)
       \<and> handleSendMessage text t1 (ChatThrow e) t2 s
           = ([Fetch (PostChat (doc_id d) text),
               CallSetError (''Failed to send message: '' @ e)],
              s\<lparr>chatHistory := chatHistory s @
                    [\<lparr>msg_id = toString (date_now t1), msg_role = User, message = text,
                      msg_created_at = date_iso t1\<rparr>],
                error := Some (''Failed to send message: '' @ e), isLoading := False\<rparr>)"
  using assms
  by (simp add: handleSendMessage_def handleSendMessage_issue_def
      handleSendMessage_resume_def userMessage_def assistantMessage_def)

theorem handleSendMessage_optimistic_witness:
  "selectedDocument (state0\<lparr>selectedDocument := Some doc_b\<rparr>) = Some doc_b
   \<and> handleSendMessage ''summarize this'' \<lparr>date_now = 7, date_iso = ''t1''\<rparr>
        (ChatOk ''A summary.'') \<lparr>date_now = 9, date_iso = ''t2''\<rparr>
        (state0\<lparr>selectedDocument := Some doc_b\<rparr>)
     = ([Fetch (PostChat ''d2'' ''summarize this'')],
        \<lparr>documents = [doc_b], selectedDocument = Some doc_b,
         chatHistory =
           [\<lparr>msg_id = ''7'', msg_role = User, message = ''summarize this'',
             msg_created_at = ''t1''\<rparr>,
            \<lparr>msg_id = ''10'', msg_role = Assistant, message = ''A summary.'',
             msg_created_at = ''t2''\<rparr>],
         isLoading = False, error = None\<rparr>)
   \<and> handleSendMessage ''summarize this'' \<lparr>date_now = 7, date_iso = ''t1''\<rparr>
        ChatNotOk \<lparr>date_now = 9, date_iso = ''t2''\<rparr>
        (state0\<lparr>selectedDocument := Some doc_b\<rparr>)
     = ([Fetch (PostChat ''d2'' ''summarize this''), CallSetError ''Failed to send message''],
        \<lparr>documents = [doc_b], selectedDocument = Some doc_b,
         chatHistory =
           [\<lparr>msg_id = ''7'', msg_role = User, message = ''summarize this'',
             msg_created_at = ''t1''\<rparr>],
         isLoading = False, error = Some ''Failed to send message''\<rparr>)"
proof -
  have sel: "selectedDocument (state0\<lparr>selectedDocument := Some doc_b\<rparr>) = Some doc_b"
    by simp
  have ts: "toString 7 = ''7''" "toString 10 = ''10''"
    by code_simp+
  from handleSendMessage_optimistic [OF sel, of "''summarize this''"
      "\<lparr>date_now = 7, date_iso = ''t1''\<rparr>" "''A summary.''" "\<lparr>date_now = 9, date_iso = ''t2''\<rparr>"]
    sel ts
  show ?thesis by (simp add: state0_def doc_b_def)
qed

section \<open>Properties of the upload poller pollForCompletion\<close>

lemma select_new_doc_effects:
  "select_new_doc P resp s = (x, l, s') \<Longrightarrow>
     status_checks l = 0 \<and> x \<noteq> Continue
     \<and> terminal_callbacks l = (if x = Return then 1 else 0)"
  by (auto simp: select_new_doc_def status_checks_def terminal_callbacks_def
      split: docs_response.splits option.splits)

lemma poll_body_effects:
  assumes "poll_body env r s = (x, l, s')"
  shows "status_checks l = 0"
    and "terminal_callbacks l \<le> 1"
    and "x = Continue \<Longrightarrow> l = []"
    and "(\<exists>e. x = Throw e) \<Longrightarrow> terminal_callbacks l = 0"
  using assms
  by (auto simp: poll_body_def loadDocuments_def status_checks_def terminal_callbacks_def
      split: status_response.splits if_splits prod.splits
      dest!: select_new_doc_effects)


lemma after_loop_effects:
  "after_loop a s = (l, s') \<Longrightarrow>
     status_checks l = 0 \<and> terminal_callbacks l = (if a \<ge> maxAttempts then 1 else 0)"
  by (auto simp: after_loop_def status_checks_def terminal_callbacks_def split: if_splits)

lemma status_checks_simps [simp]:
  "status_checks [] = 0"
  "status_checks (x # l) = (if is_status_check x then Suc (status_checks l) else status_checks l)"
  "status_checks (l @ l') = status_checks l + status_checks l'"
  "status_checks (replicate n (Fetch (GetProcessStatus i))) = n"
  by (simp_all add: status_checks_def)

lemma terminal_callbacks_simps [simp]:
  "terminal_callbacks [] = 0"
  "terminal_callbacks (x # l) = (if is_terminal x then Suc (terminal_callbacks l) else terminal_callbacks l)"
  "terminal_callbacks (l @ l') = terminal_callbacks l + terminal_callbacks l'"
  "terminal_callbacks (replicate n (Fetch q)) = 0"
  by (simp_all add: terminal_callbacks_def)

lemma pollLoop_bounds:
  "pollLoop env a s = (out, l, s') \<Longrightarrow>
     status_checks l \<le> maxAttempts - a \<and> terminal_callbacks l \<le> 1"
proof (induction env a s arbitrary: out l s' rule: pollLoop.induct)
  case (1 env attempts s)
  show ?case
  proof (cases "attempts < maxAttempts")
    case False
    with "1.prems" show ?thesis
      by (auto simp: pollLoop.simps [of env attempts s] split: prod.splits
          dest!: after_loop_effects)
  next
    case True
    obtain x lb sb where body:
      "poll_body env (status_resp env attempts) (interleaved env attempts s) = (x, lb, sb)"
      by (cases "poll_body env (status_resp env attempts) (interleaved env attempts s)")
    note eff = poll_body_effects [OF body]
    show ?thesis
    proof (cases x)
      case Continue
      obtain out2 l2 s2 where rec: "pollLoop env (Suc attempts) sb = (out2, l2, s2)"
        by (cases "pollLoop env (Suc attempts) sb")
      from "1.IH" [OF True body [symmetric] Continue refl rec]
      have ih: "status_checks l2 \<le> maxAttempts - Suc attempts \<and> terminal_callbacks l2 \<le> 1"
        by simp
      from eff(3) Continue have "lb = []" by simp
      with "1.prems" True body Continue rec ih show ?thesis
        by (auto simp: pollLoop.simps [of env attempts s])
    next
      case Break
      obtain l3 s3 where al: "after_loop attempts sb = (l3, s3)"
        by (cases "after_loop attempts sb")
      from after_loop_effects [OF al] True
      have "status_checks l3 = 0" "terminal_callbacks l3 = 0" by auto
      with "1.prems" True body Break al eff(1,2) show ?thesis
        by (auto simp: pollLoop.simps [of env attempts s])
    next
      case Return
      with "1.prems" True body eff(1,2) show ?thesis
        by (auto simp: pollLoop.simps [of env attempts s])
    next
      case (Throw e)
      with "1.prems" True body eff(1,2) show ?thesis
        by (auto simp: pollLoop.simps [of env attempts s])
    qed
  qed
qed


lemma poll_body_pending: "is_pending r \<Longrightarrow> poll_body env r s = (Continue, [], s)"
  by (cases r) (auto simp: poll_body_def)

lemma pollLoop_all_pending:
  "\<forall>k. a \<le> k \<and> k < maxAttempts \<longrightarrow> is_pending (status_resp env k) \<Longrightarrow> a \<le> maxAttempts \<Longrightarrow>
     \<exists>s'. pollLoop env a s =
            (Returned,
             replicate (maxAttempts - a) (Fetch (GetProcessStatus (file_id env)))
               @ [CallSetError msg_timed_out], s')
          \<and> error s' = Some msg_timed_out \<and> \<not> isLoading s'"
proof (induction env a s rule: pollLoop.induct)
  case (1 env attempts s)
  show ?case
  proof (cases "attempts < maxAttempts")
    case False
    with "1.prems" have "attempts = maxAttempts" by simp
    then show ?thesis
      by (simp add: pollLoop.simps [of env maxAttempts s] after_loop_def)
  next
    case True
    with "1.prems" have pend: "is_pending (status_resp env attempts)" by simp
    note body = poll_body_pending [OF pend, of env "interleaved env attempts s"]
    from "1.prems" True
    have "\<exists>s'. pollLoop env (Suc attempts) (interleaved env attempts s) =
            (Returned,
             replicate (maxAttempts - Suc attempts) (Fetch (GetProcessStatus (file_id env)))
               @ [CallSetError msg_timed_out], s')
          \<and> error s' = Some msg_timed_out \<and> \<not> isLoading s'"
      by (intro "1.IH" [OF True body [symmetric] refl refl]) auto
    then obtain s' where rec:
      "pollLoop env (Suc attempts) (interleaved env attempts s) =
            (Returned,
             replicate (maxAttempts - Suc attempts) (Fetch (GetProcessStatus (file_id env)))
               @ [CallSetError msg_timed_out], s')"
      and fin: "error s' = Some msg_timed_out" "\<not> isLoading s'"
      by blast
    from True have "maxAttempts - attempts = Suc (maxAttempts - Suc attempts)" by simp
    with True body rec fin show ?thesis
      by (simp add: pollLoop.simps [of env attempts s])
  qed
qed

lemma poll_body_well_answered:
  assumes "well_answered env r" and "poll_body env r s = (x, l, s')"
  shows "(x = Continue \<and> l = []) \<or> ((x = Break \<or> x = Return) \<and> terminal_callbacks l = 1)"
  using assms
  by (cases r)
    (auto simp: poll_body_def select_new_doc_def loadDocuments_def resolvable_def
      split: if_splits docs_response.splits option.splits)

lemma pollLoop_exactly_one:
  "\<forall>k. a \<le> k \<and> k < maxAttempts \<longrightarrow> well_answered env (status_resp env k) \<Longrightarrow>
   pollLoop env a s = (out, l, s') \<Longrightarrow> out = Returned \<and> terminal_callbacks l = 1"
proof (induction env a s arbitrary: out l s' rule: pollLoop.induct)
  case (1 env attempts s)
  show ?case
  proof (cases "attempts < maxAttempts")
    case False
    with "1.prems"(2) show ?thesis
      by (auto simp: pollLoop.simps [of env attempts s] after_loop_def split: prod.splits)
  next
    case True
    obtain x lb sb where body:
      "poll_body env (status_resp env attempts) (interleaved env attempts s) = (x, lb, sb)"
      by (cases "poll_body env (status_resp env attempts) (interleaved env attempts s)")
    from "1.prems"(1) True have wa: "well_answered env (status_resp env attempts)" by simp
    note eff = poll_body_well_answered [OF wa body]
    show ?thesis
    proof (cases x)
      case Continue
      obtain out2 l2 s2 where rec: "pollLoop env (Suc attempts) sb = (out2, l2, s2)"
        by (cases "pollLoop env (Suc attempts) sb")
      from "1.prems"(1)
      have "\<forall>k. Suc attempts \<le> k \<and> k < maxAttempts \<longrightarrow> well_answered env (status_resp env k)"
        by simp
      from "1.IH" [OF True body [symmetric] Continue refl this rec]
      have ih: "out2 = Returned \<and> terminal_callbacks l2 = 1" .
      from eff Continue have "lb = []" by simp
      with "1.prems"(2) True body Continue rec ih show ?thesis
        by (auto simp: pollLoop.simps [of env attempts s])
    next
      case Break
      from eff Break have one: "terminal_callbacks lb = 1" by simp
      from True have al: "after_loop attempts sb = ([], sb\<lparr>isLoading := False\<rparr>)"
        by (simp add: after_loop_def)
      from "1.prems"(2) True body Break al one show ?thesis
        by (auto simp: pollLoop.simps [of env attempts s])
    next
      case Return
      from eff Return have one: "terminal_callbacks lb = 1" by simp
      from "1.prems"(2) True body Return one show ?thesis
        by (auto simp: pollLoop.simps [of env attempts s])
    next
      case (Throw e)
      with eff show ?thesis by simp
    qed
  qed
qed

lemma pollLoop_pending_prefix:
  assumes "\<forall>j. a \<le> j \<and> j < k \<longrightarrow> is_pending (status_resp env j)"
    and "a \<le> k" and "k \<le> maxAttempts"
  shows "\<exists>sk. pollLoop env a s =
           (case pollLoop env k sk of
              (out, l, s') \<Rightarrow>
                (out, replicate (k - a) (Fetch (GetProcessStatus (file_id env))) @ l, s'))"
  using assms
proof (induction "k - a" arbitrary: a s)
  case 0
  then have "a = k" by simp
  then show ?case by (auto split: prod.splits)
next
  case (Suc n)
  then have lt: "a < k" and lt': "a < maxAttempts" by simp_all
  with Suc.prems have pend: "is_pending (status_resp env a)" by simp
  note body = poll_body_pending [OF pend, of env "interleaved env a s"]
  from Suc.hyps(2) have n: "n = k - Suc a" by simp
  from Suc.prems lt
  have "\<exists>sk. pollLoop env (Suc a) (interleaved env a s) =
           (case pollLoop env k sk of
              (out, l, s') \<Rightarrow>
                (out, replicate (k - Suc a) (Fetch (GetProcessStatus (file_id env))) @ l, s'))"
    by (intro Suc.hyps(1) [OF n]) auto
  then obtain sk where rec: "pollLoop env (Suc a) (interleaved env a s) =
           (case pollLoop env k sk of
              (out, l, s') \<Rightarrow>
                (out, replicate (k - Suc a) (Fetch (GetProcessStatus (file_id env))) @ l, s'))"
    by blast
  from lt have k: "k - a = Suc (k - Suc a)" by simp
  from lt' body rec k have "pollLoop env a s =
           (case pollLoop env k sk of
              (out, l, s') \<Rightarrow>
                (out, replicate (k - a) (Fetch (GetProcessStatus (file_id env))) @ l, s'))"
    by (simp add: pollLoop.simps [of env a s] split: prod.splits)
  then show ?case by blast
qed


lemma pollLoop_settled_at:
  assumes pre: "\<forall>j<k. is_pending (status_resp env j)" and k: "k < maxAttempts"
  shows "status_resp env k = Status404 \<Longrightarrow>
           \<exists>s'. pollLoop env 0 s =
                  (Returned,
                   replicate (Suc k) (Fetch (GetProcessStatus (file_id env)))
                     @ [CallSetError msg_not_found], s')
                \<and> error s' = Some msg_not_found \<and> \<not> isLoading s'"
    and "status_resp env k = StatusOk ''error'' document_id \<Longrightarrow>
           \<exists>s'. pollLoop env 0 s =
                  (Returned,
                   replicate (Suc k) (Fetch (GetProcessStatus (file_id env)))
                     @ [CallSetError msg_failed], s')
                \<and> error s' = Some msg_failed \<and> \<not> isLoading s'"
    and "status_resp env k = StatusOk ''done'' document_id \<Longrightarrow>
         updated_resp env = DocsOk (Some docs) \<Longrightarrow>
         find (matches_polled (filename env) document_id) docs = Some newDoc \<Longrightarrow>
           \<exists>s'. pollLoop env 0 s =
                  (Returned,
                   replicate (Suc k) (Fetch (GetProcessStatus (file_id env)))
                     @ [Fetch GetDocuments, Fetch GetDocuments, CallSetSelectedDocument newDoc],
                   s')
                \<and> selectedDocument s' = Some newDoc \<and> documents s' = docs \<and> \<not> isLoading s'"
proof -
  from pre k pollLoop_pending_prefix [of 0 k env s]
  obtain sk where run: "pollLoop env 0 s =
           (case pollLoop env k sk of
              (out, l, s') \<Rightarrow>
                (out, replicate k (Fetch (GetProcessStatus (file_id env))) @ l, s'))"
    by auto
  have app: "replicate k x @ x # xs = replicate (Suc k) x @ xs" for x :: effect and xs
    by (simp add: replicate_app_Cons_same)
  show "\<exists>s'. pollLoop env 0 s =
                  (Returned,
                   replicate (Suc k) (Fetch (GetProcessStatus (file_id env)))
                     @ [CallSetError msg_not_found], s')
                \<and> error s' = Some msg_not_found \<and> \<not> isLoading s'"
    if "status_resp env k = Status404"
    using that k run
    by (simp add: pollLoop.simps [of env k sk] poll_body_def after_loop_def app
        del: replicate_Suc replicate.simps)
  show "\<exists>s'. pollLoop env 0 s =
                  (Returned,
                   replicate (Suc k) (Fetch (GetProcessStatus (file_id env)))
                     @ [CallSetError msg_failed], s')
                \<and> error s' = Some msg_failed \<and> \<not> isLoading s'"
    if "status_resp env k = StatusOk ''error'' document_id"
    using that k run
    by (simp add: pollLoop.simps [of env k sk] poll_body_def after_loop_def app
        del: replicate_Suc replicate.simps)
  show "\<exists>s'. pollLoop env 0 s =
                  (Returned,
                   replicate (Suc k) (Fetch (GetProcessStatus (file_id env)))
                     @ [Fetch GetDocuments, Fetch GetDocuments, CallSetSelectedDocument newDoc],
                   s')
                \<and> selectedDocument s' = Some newDoc \<and> documents s' = docs \<and> \<not> isLoading s'"
    if "status_resp env k = StatusOk ''done'' document_id"
      "updated_resp env = DocsOk (Some docs)"
      "find (matches_polled (filename env) document_id) docs = Some newDoc"
    using that k run
    by (simp add: pollLoop.simps [of env k sk] poll_body_def select_new_doc_def
        loadDocuments_def app del: replicate_Suc replicate.simps)
qed

text \<open>
  C3 (as amended).  Every run of the upload poller \<open>pollForCompletion\<close> sends at most
  \<open>maxAttempts = 60\<close> status checks and makes at most one terminal callback (an error
  message or a document selection), whatever the backend answers and whatever other
  handlers do meanwhile.  Exactly one is made, and the run returns, whenever no status
  request is rejected and every \<open>done\<close> answer finds its document in the refreshed
  collection.  Which one is fixed by the first answer that is not pending: the not-found
  message at a 404, the failure message at status \<open>error\<close>, the selection of the matching
  entry at a resolvable \<open>done\<close>, each after as many checks as answers were received;
  and the time-out message after exactly \<open>maxAttempts\<close> checks when every answer is
  pending.  The error and the loading flag are set accordingly.
\<close>

theorem pollForCompletion_reports_once:
  "status_checks (fst (snd (pollForCompletion env s))) \<le> maxAttempts
   \<and> maxAttempts = 60
   \<and> terminal_callbacks (fst (snd (pollForCompletion env s))) \<le> 1
   \<and> ((\<forall>k<maxAttempts. well_answered env (status_resp env k)) \<longrightarrow>
        fst (pollForCompletion env s) = Returned
        \<and> terminal_callbacks (fst (snd (pollForCompletion env s))) = 1)
   \<and> ((\<forall>k<maxAttempts. is_pending (status_resp env k)) \<longrightarrow>
        fst (pollForCompletion env s) = Returned
        \<and> fst (snd (pollForCompletion env s))
            = replicate maxAttempts (Fetch (GetProcessStatus (file_id env)))
                @ [CallSetError msg_timed_out]
        \<and> error (snd (snd (pollForCompletion env s))) = Some msg_timed_out
        \<and> isLoading (snd (snd (pollForCompletion env s))) = False)
   \<and> (k < maxAttempts \<and> (\<forall>j<k. is_pending (status_resp env j))
        \<and> status_resp env k = Status404 \<longrightarrow>
        fst (pollForCompletion env s) = Returned
        \<and> fst (snd (pollForCompletion env s))
            = replicate (Suc k) (Fetch (GetProcessStatus (file_id env)))
                @ [CallSetError msg_not_found]
        \<and> error (snd (snd (pollForCompletion env s))) = Some msg_not_found
        \<and> isLoading (snd (snd (pollForCompletion env s))) = False)
   \<and> (k < maxAttempts \<and> (\<forall>j<k. is_pending (status_resp env j))
        \<and> status_resp env k = StatusOk ''error'' document_id \<longrightarrow>
        fst (pollForCompletion env s) = Returned
        \<and> fst (snd (pollForCompletion env s))
            = replicate (Suc k) (Fetch (GetProcessStatus (file_id env)))
                @ [CallSetError msg_failed]
        \<and> error (snd (snd (pollForCompletion env s))) = Some msg_failed
        \<and> isLoading (snd (snd (pollForCompletion env s))) = False)
   \<and> (k < maxAttempts \<and> (\<forall>j<k. is_pending (status_resp env j))
        \<and> status_resp env k = StatusOk ''done'' document_id
        \<and> updated_resp env = DocsOk (Some docs)
        \<and> find (matches_polled (filename env) document_id) docs = Some newDoc \<longrightarrow>
        fst (pollForCompletion env s) = Returned
        \<and> fst (snd (pollForCompletion env s))
            = replicate (Suc k) (Fetch (GetProcessStatus (file_id env)))
                @ [Fetch GetDocuments, Fetch GetDocuments, CallSetSelectedDocument newDoc]
        \<and> selectedDocument (snd (snd (pollForCompletion env s))) = Some newDoc
        \<and> isLoading (snd (snd (pollForCompletion env s))) = False)"
proof -
  obtain out l s' where run: "pollLoop env 0 s = (out, l, s')"
    by (cases "pollLoop env 0 s")
  from pollLoop_bounds [OF run]
  have b: "status_checks l \<le> maxAttempts" "terminal_callbacks l \<le> 1" by simp_all
  have one: "out = Returned \<and> terminal_callbacks l = 1"
    if "\<forall>k<maxAttempts. well_answered env (status_resp env k)"
    using that pollLoop_exactly_one [OF _ run] by simp
  have tmo: "out = Returned
        \<and> l = replicate maxAttempts (Fetch (GetProcessStatus (file_id env)))
                @ [CallSetError msg_timed_out]
        \<and> error s' = Some msg_timed_out \<and> isLoading s' = False"
    if "\<forall>k<maxAttempts. is_pending (status_resp env k)"
    using that pollLoop_all_pending [of 0 env s] run by auto
  have gone: "out = Returned
        \<and> l = replicate (Suc k) (Fetch (GetProcessStatus (file_id env)))
                @ [CallSetError msg_not_found]
        \<and> error s' = Some msg_not_found \<and> isLoading s' = False"
    if "k < maxAttempts" "\<forall>j<k. is_pending (status_resp env j)" "status_resp env k = Status404"
    using pollLoop_settled_at(1) [OF that(2) that(1) that(3), of s] run by auto
  have failed: "out = Returned
        \<and> l = replicate (Suc k) (Fetch (GetProcessStatus (file_id env)))
                @ [CallSetError msg_failed]
        \<and> error s' = Some msg_failed \<and> isLoading s' = False"
    if "k < maxAttempts" "\<forall>j<k. is_pending (status_resp env j)"
      "status_resp env k = StatusOk ''error'' document_id"
    using pollLoop_settled_at(2) [OF that(2) that(1) that(3), of s] run by auto
  have found: "out = Returned
        \<and> l = replicate (Suc k) (Fetch (GetProcessStatus (file_id env)))
                @ [Fetch GetDocuments, Fetch GetDocuments, CallSetSelectedDocument newDoc]
        \<and> selectedDocument s' = Some newDoc \<and> isLoading s' = False"
    if "k < maxAttempts" "\<forall>j<k. is_pending (status_resp env j)"
      "status_resp env k = StatusOk ''done'' document_id"
      "updated_resp env = DocsOk (Some docs)"
      "find (matches_polled (filename env) document_id) docs = Some newDoc"
    using pollLoop_settled_at(3) [OF that(2) that(1) that(3) that(4) that(5), of s] run by auto
  have m: "maxAttempts = 60" by (simp add: maxAttempts_def)
  from b one tmo gone failed found m show ?thesis
    unfolding pollForCompletion_def run fst_conv snd_conv by blast
qed


theorem pollForCompletion_reports_once_witness:
  "fst (pollForCompletion env_pending state0) = Returned
   \<and> fst (snd (pollForCompletion env_pending state0))
       = replicate 60 (Fetch (GetProcessStatus ''f1'')) @ [CallSetError msg_timed_out]
   \<and> terminal_callbacks (fst (snd (pollForCompletion env_pending state0))) = 1
   \<and> error (snd (snd (pollForCompletion env_pending state0))) = Some msg_timed_out
   \<and> fst (snd (pollForCompletion env_gone state0))
       = replicate 4 (Fetch (GetProcessStatus ''f1'')) @ [CallSetError msg_not_found]
   \<and> fst (snd (pollForCompletion env_failed state0))
       = [Fetch (GetProcessStatus ''f1''), CallSetError msg_failed]
   \<and> fst (snd (pollForCompletion env_scenario state0))
       = replicate 4 (Fetch (GetProcessStatus ''f1''))
           @ [Fetch GetDocuments, Fetch GetDocuments, CallSetSelectedDocument doc_a']
   \<and> selectedDocument (snd (snd (pollForCompletion env_scenario state0))) = Some doc_a'
   \<and> terminal_callbacks (fst (snd (pollForCompletion env_scenario state0))) = 1"
proof -
  have pend: "\<forall>k<maxAttempts. is_pending (status_resp env_pending k)"
    and wa: "\<forall>k<maxAttempts. well_answered env_pending (status_resp env_pending k)"
    by (simp_all add: env_pending_def)
  from pollForCompletion_reports_once [of env_pending state0] pend wa
  have p: "fst (pollForCompletion env_pending state0) = Returned
     \<and> fst (snd (pollForCompletion env_pending state0))
       = replicate maxAttempts (Fetch (GetProcessStatus (file_id env_pending)))
           @ [CallSetError msg_timed_out]
     \<and> terminal_callbacks (fst (snd (pollForCompletion env_pending state0))) = 1
     \<and> error (snd (snd (pollForCompletion env_pending state0))) = Some msg_timed_out"
    by blast
  have g: "(3::nat) < maxAttempts" "\<forall>j<3. is_pending (status_resp env_gone j)"
    "status_resp env_gone 3 = Status404"
    by (simp_all add: env_gone_def maxAttempts_def)
  from pollForCompletion_reports_once [where env = env_gone and s = state0 and k = 3] g
  have q: "fst (snd (pollForCompletion env_gone state0))
       = replicate (Suc 3) (Fetch (GetProcessStatus (file_id env_gone)))
           @ [CallSetError msg_not_found]"
    by blast
  have f: "(0::nat) < maxAttempts" "\<forall>j<0. is_pending (status_resp env_failed j)"
    "status_resp env_failed 0 = StatusOk ''error'' None"
    by (simp_all add: env_failed_def maxAttempts_def)
  from pollForCompletion_reports_once
    [where env = env_failed and s = state0 and k = 0 and document_id = None] f
  have r: "fst (snd (pollForCompletion env_failed state0))
       = replicate (Suc 0) (Fetch (GetProcessStatus (file_id env_failed)))
           @ [CallSetError msg_failed]"
    by blast
  have d: "(3::nat) < maxAttempts" "\<forall>j<3. is_pending (status_resp env_scenario j)"
    "status_resp env_scenario 3 = StatusOk ''done'' (Some ''d1'')"
    "updated_resp env_scenario = DocsOk (Some [doc_b, doc_a'])"
    "find (matches_polled (filename env_scenario) (Some ''d1'')) [doc_b, doc_a'] = Some doc_a'"
    by (simp_all add: env_scenario_def maxAttempts_def matches_polled_def doc_b_def doc_a'_def)
  have w: "\<forall>k<maxAttempts. well_answered env_scenario (status_resp env_scenario k)"
    using d(5) by (simp add: env_scenario_def resolvable_def)
  from pollForCompletion_reports_once
    [where env = env_scenario and s = state0 and k = 3 and document_id = "Some ''d1''"
      and docs = "[doc_b, doc_a']" and newDoc = doc_a'] d w
  have c: "fst (snd (pollForCompletion env_scenario state0))
       = replicate (Suc 3) (Fetch (GetProcessStatus (file_id env_scenario)))
           @ [Fetch GetDocuments, Fetch GetDocuments, CallSetSelectedDocument doc_a']
     \<and> selectedDocument (snd (snd (pollForCompletion env_scenario state0))) = Some doc_a'
     \<and> terminal_callbacks (fst (snd (pollForCompletion env_scenario state0))) = 1"
    by blast
  have ids: "file_id env_pending = ''f1''" "file_id env_gone = ''f1''"
    "file_id env_failed = ''f1''" "file_id env_scenario = ''f1''"
    by (simp_all add: env_pending_def env_gone_def env_failed_def env_scenario_def)
  have n: "Suc 3 = 4" by simp
  from p q r c show ?thesis
    unfolding ids n by (simp add: maxAttempts_def)
qed


text \<open>
  C2 (counterexample).  The upload of \<open>a.pdf\<close> is being polled; after the first,
  pending, check the user selects document \<open>d2\<close>; the second check answers \<open>done\<close>.
  The poller then selects \<open>d1\<close>, replacing the user's selection.
\<close>

theorem stale_done_counterexample:
  "selectedDocument (interleaved env_switch 1 (state0\<lparr>isLoading := True\<rparr>)) = Some doc_b
   \<and> selectedDocument (snd (snd (pollForCompletion env_switch (state0\<lparr>isLoading := True\<rparr>))))
       = Some doc_a'
   \<and> doc_id doc_a' \<noteq> doc_id doc_b"
  by (simp add: pollForCompletion_def pollLoop.simps maxAttempts_def env_switch_def
      poll_body_def select_new_doc_def loadDocuments_def matches_polled_def
      onSelectDocument_def onSelectDocument_issue_def loadChatHistory_issue_def
      loadChatHistory_resume_def state0_def doc_a'_def doc_b_def)

text \<open>
  C2 (as amended).  A \<open>done\<close> response is applied without looking at the active
  document: whenever the refreshed collection holds an entry matching the upload, the
  poller replaces the document list with the refreshed one, selects that entry and clears
  the loading flag, in every state, whichever document is selected at that moment.
\<close>

theorem poll_done_applied_unguarded:
  assumes "updated_resp env = DocsOk (Some ds)"
    and "find (matches_polled (filename env) document_id) ds = Some newDoc"
  shows "poll_body env (StatusOk ''done'' document_id) s
         = (Return,
            [Fetch GetDocuments, Fetch GetDocuments, CallSetSelectedDocument newDoc],
            s\<lparr>documents := ds, selectedDocument := Some newDoc, isLoading := False\<rparr>)"
  using assms
  by (simp add: poll_body_def select_new_doc_def loadDocuments_def split: docs_response.splits)

theorem poll_done_applied_unguarded_witness:
  "updated_resp env_switch = DocsOk (Some [doc_b, doc_a'])
   \<and> find (matches_polled (filename env_switch) (Some ''d1'')) [doc_b, doc_a'] = Some doc_a'
   \<and> selectedDocument (state0\<lparr>selectedDocument := Some doc_b\<rparr>) = Some doc_b
   \<and> poll_body env_switch (StatusOk ''done'' (Some ''d1'')) (state0\<lparr>selectedDocument := Some doc_b\<rparr>)
       = (Return,
          [Fetch GetDocuments, Fetch GetDocuments, CallSetSelectedDocument doc_a'],
          state0\<lparr>selectedDocument := Some doc_b\<rparr>
            \<lparr>documents := [doc_b, doc_a'], selectedDocument := Some doc_a', isLoading := False\<rparr>)"
proof -
  have u: "updated_resp env_switch = DocsOk (Some [doc_b, doc_a'])"
    by (simp add: env_switch_def)
  have f: "find (matches_polled (filename env_switch) (Some ''d1'')) [doc_b, doc_a'] = Some doc_a'"
    by (simp add: env_switch_def matches_polled_def doc_b_def doc_a'_def)
  from poll_done_applied_unguarded [OF u f, of "state0\<lparr>selectedDocument := Some doc_b\<rparr>"] u f
  show ?thesis by simp
qed











text \<open>
  The third path, a \<open>POST\<close> answered 200: the entry is looked up by file name only, in
  the list captured by the handler's closure, not in the list just fetched.
\<close>

lemma immediate_completion_selection:
  assumes "\<not> raw_result fileData"
  shows "selectedDocument (snd (snd (handleFileUploaded captured fileData (ProcOk True) env s)))
         = (case find (\<lambda>d. file_name d = fd_filename fileData) captured of
              None \<Rightarrow> selectedDocument s
            | Some d \<Rightarrow> Some d)"
  using assms
  by (simp add: handleFileUploaded_def loadDocuments_def Let_def
      split: docs_response.splits option.splits)

section \<open>Properties of the interval poller of ProcessingStatus\<close>

lemma ps_run_simps [simp]:
  "ps_run [] s = s"
  "ps_run (e # es) s = ps_run es (ps_step s e)"
  "ps_run (es @ es') s = ps_run es' (ps_run es s)"
  by (simp_all add: ps_run_def)

lemma tick_resume_ignored: "ignored r \<Longrightarrow> tick_resume r s = s"
  by (cases r) (auto simp: tick_resume_def)

lemma ignored_round:
  assumes "i \<in> set (intervals s)" and "ignored r"
  shows "ps_run [Tick i, GetResponse r] s = s\<lparr>ps_trace := ps_trace s @ [StatusCheck]\<rparr>"
  using assms by (simp add: tick_resume_ignored)

lemma ignored_rounds:
  assumes "i \<in> set (intervals s)" and "ignored r"
  shows "ps_run (concat (replicate n [Tick i, GetResponse r])) s
         = s\<lparr>ps_trace := ps_trace s @ replicate n StatusCheck\<rparr>"
  using assms
proof (induction n arbitrary: s)
  case 0
  then show ?case by simp
next
  case (Suc n)
  let ?s1 = "s\<lparr>ps_trace := ps_trace s @ [StatusCheck]\<rparr>"
  from Suc.prems have r1: "ps_run [Tick i, GetResponse r] s = ?s1"
    by (rule ignored_round)
  from Suc.prems have "i \<in> set (intervals ?s1)" by simp
  from Suc.IH [OF this Suc.prems(2)]
  have "ps_run (concat (replicate n [Tick i, GetResponse r])) ?s1
        = ?s1\<lparr>ps_trace := ps_trace ?s1 @ replicate n StatusCheck\<rparr>" .
  moreover have "ps_run (concat (replicate (Suc n) [Tick i, GetResponse r])) s
        = ps_run (concat (replicate n [Tick i, GetResponse r])) (ps_run [Tick i, GetResponse r] s)"
    by (simp del: ps_run_simps(2) add: ps_run_simps(3) [symmetric])
  ultimately show ?case using r1
    by (simp add: replicate_append_same)
qed

lemma accepted_state:
  "ps_step ps_init (PostResponse (PostResolved 202 d))
   = \<lparr>cancelled = False, pollingRef = Some 1, statusMessage = msg_started,
      intervals = [1], next_timer = 2, post_pending = False, pending_gets = 0,
      ps_trace = []\<rparr>"
  by (simp add: ps_init_def startProcessing_resume_def pollStatus_def clear_current_def)

lemma startProcessing_guarded:
  assumes "cancelled s" and "st \<noteq> 202" and "st' \<noteq> Some 202"
  shows "startProcessing_resume (PostResolved st d) s = s"
    and "startProcessing_resume (PostRejected st' err) s = s"
  using assms by (simp_all add: startProcessing_resume_def)

text \<open>
  C1 (the code at the failing input).  A status request is out when the cleanup runs;
  its response, \<open>done\<close>, arrives afterwards and \<open>onComplete\<close> is invoked after the
  cancellation.  And when the cleanup runs before the POST is answered with 202, the
  continuation starts the interval after the cancellation: status checks go on, and the
  timer stays live.
\<close>

theorem pollStatus_callback_after_cancel:
  "ps_trace (ps_run [PostResponse (PostResolved 202 JNull), Tick 1, Cleanup,
                     GetResponse (GetResolved (JObj [(''status'', JStr ''done''),
                                                     (''result'', JStr ''r'')]))] ps_init)
     = [StatusCheck, Cancelled, OnComplete (JStr ''r'')]
   \<and> ps_trace (ps_run [Cleanup, PostResponse (PostResolved 202 JNull), Tick 1, Tick 1] ps_init)
     = [Cancelled, StatusCheck, StatusCheck]
   \<and> intervals (ps_run [Cleanup, PostResponse (PostResolved 202 JNull), Tick 1, Tick 1] ps_init)
     = [1]"
  by (simp add: ps_init_def startProcessing_resume_def pollStatus_def clear_current_def
      cleanup_def tick_resume_def is_done_def done_result_def)

text \<open>
  C4 (the code at the failing input).  After a 202, any number \<open>n\<close> of ticks whose
  request is rejected leaves the interval poller polling: \<open>n\<close> checks sent, the timer
  live, no callback made, and no counter that could end it.  In the upload poller a
  rejected status request is not caught in the loop: the run ends as a rejected promise
  after one check, with no error message and the loading flag as it was.
\<close>

theorem network_failures_never_time_out:
  "ps_run (PostResponse (PostResolved 202 d)
             # concat (replicate n [Tick 1, GetResponse (GetRejected e)])) ps_init
     = \<lparr>cancelled = False, pollingRef = Some 1, statusMessage = msg_started,
        intervals = [1], next_timer = 2, post_pending = False, pending_gets = 0,
        ps_trace = replicate n StatusCheck\<rparr>
   \<and> pollForCompletion (env\<lparr>status_resp := \<lambda>k. StatusThrow e'\<rparr>) s
     = (Threw e', [Fetch (GetProcessStatus (file_id env))], interleaved env 0 s)"
proof -
  have "ps_run (PostResponse (PostResolved 202 d)
             # concat (replicate n [Tick 1, GetResponse (GetRejected e)])) ps_init
     = \<lparr>cancelled = False, pollingRef = Some 1, statusMessage = msg_started,
        intervals = [1], next_timer = 2, post_pending = False, pending_gets = 0,
        ps_trace = replicate n StatusCheck\<rparr>"
    by (simp add: accepted_state ignored_rounds del: ps_step.simps)
  moreover have "pollForCompletion (env\<lparr>status_resp := \<lambda>k. StatusThrow e'\<rparr>) s
     = (Threw e', [Fetch (GetProcessStatus (file_id env))], interleaved env 0 s)"
    by (simp add: pollForCompletion_def pollLoop.simps [of _ 0] maxAttempts_def poll_body_def)
  ultimately show ?thesis by simp
qed

text \<open>
  C3 (counterexample).  The interval poller has no attempt budget: answered pending 61
  times it has sent 61 checks, more than \<open>maxAttempts\<close>, and is still polling with no
  callback made.  The upload poller, answered \<open>done\<close> while the refreshed collection
  has no matching entry, returns without any terminal callback.
\<close>

theorem unbounded_or_silent_counterexample:
  "ps_run (PostResponse (PostResolved 202 JNull)
             # concat (replicate 61 [Tick 1,
                 GetResponse (GetResolved (JObj [(''status'', JStr ''pending'')]))])) ps_init
     = \<lparr>cancelled = False, pollingRef = Some 1, statusMessage = msg_started,
        intervals = [1], next_timer = 2, post_pending = False, pending_gets = 0,
        ps_trace = replicate 61 StatusCheck\<rparr>
   \<and> maxAttempts < 61
   \<and> pollForCompletion env_lost (state0\<lparr>isLoading := True\<rparr>)
     = (Returned,
        [Fetch (GetProcessStatus ''f1''), Fetch GetDocuments, Fetch GetDocuments],
        state0)
   \<and> terminal_callbacks
        [Fetch (GetProcessStatus ''f1''), Fetch GetDocuments, Fetch GetDocuments] = 0"
proof -
  have "ignored (GetResolved (JObj [(''status'', JStr ''pending'')]))"
    by (simp add: is_done_def)
  then have "ps_run (PostResponse (PostResolved 202 JNull)
             # concat (replicate 61 [Tick 1,
                 GetResponse (GetResolved (JObj [(''status'', JStr ''pending'')]))])) ps_init
     = \<lparr>cancelled = False, pollingRef = Some 1, statusMessage = msg_started,
        intervals = [1], next_timer = 2, post_pending = False, pending_gets = 0,
        ps_trace = replicate 61 StatusCheck\<rparr>"
    by (simp add: accepted_state ignored_rounds del: ps_step.simps)
  moreover have "pollForCompletion env_lost (state0\<lparr>isLoading := True\<rparr>)
     = (Returned,
        [Fetch (GetProcessStatus ''f1''), Fetch GetDocuments, Fetch GetDocuments],
        state0)"
    by (simp add: pollForCompletion_def pollLoop.simps [of _ 0] maxAttempts_def poll_body_def
        env_lost_def select_new_doc_def loadDocuments_def matches_polled_def after_loop_def
        state0_def doc_b_def)
  ultimately show ?thesis
    by (simp add: maxAttempts_def)
qed

section \<open>Properties of the enrichment effect\<close>

lemma fetchForClause_requests:
  "length (filter (is_whatif_for i) (fst (fetchForClause ty env c st)))
     = (if clause_id c = i \<and> needs_scenarios c then 1 else 0)"
  "length (filter (is_legal_for i) (fst (fetchForClause ty env c st)))
     \<le> (if clause_id c = i \<and> needs_references c then 1 else 0)"
  "fst (fetchForClause ty env c st) = fst (fetchForClause ty env c st')"
  by (auto simp: fetchForClause_def fetch_scenarios_def fetch_references_def
      needs_scenarios_def needs_references_def
      split: enrich_response.splits option.splits prod.splits bool.splits if_splits)

lemma enrich_from_whatif:
  "length (filter (is_whatif_for i) (fst (enrich_from ty envs k cs st)))
     = length (filter (\<lambda>c. clause_id c = i \<and> needs_scenarios c) cs)"
proof (induction cs arbitrary: k st)
  case Nil
  then show ?case by simp
next
  case (Cons c cs)
  obtain l1 st1 where f: "fetchForClause ty (envs k) c st = (l1, st1)"
    by (cases "fetchForClause ty (envs k) c st")
  obtain l2 st2 where r: "enrich_from ty envs (Suc k) cs st1 = (l2, st2)"
    by (cases "enrich_from ty envs (Suc k) cs st1")
  from fetchForClause_requests(1) [of i ty "envs k" c st] f
  have a: "length (filter (is_whatif_for i) l1) = (if clause_id c = i \<and> needs_scenarios c then 1 else 0)"
    by simp
  from Cons.IH [of "Suc k" st1] r
  have b: "length (filter (is_whatif_for i) l2)
     = length (filter (\<lambda>c. clause_id c = i \<and> needs_scenarios c) cs)" by simp
  from a b f r show ?case by (simp split: if_splits)
qed

lemma enrich_from_legal:
  "length (filter (is_legal_for i) (fst (enrich_from ty envs k cs st)))
     \<le> length (filter (\<lambda>c. clause_id c = i \<and> needs_references c) cs)"
proof (induction cs arbitrary: k st)
  case Nil
  then show ?case by simp
next
  case (Cons c cs)
  obtain l1 st1 where f: "fetchForClause ty (envs k) c st = (l1, st1)"
    by (cases "fetchForClause ty (envs k) c st")
  obtain l2 st2 where r: "enrich_from ty envs (Suc k) cs st1 = (l2, st2)"
    by (cases "enrich_from ty envs (Suc k) cs st1")
  from fetchForClause_requests(2) [of i ty "envs k" c st] f
  have a: "length (filter (is_legal_for i) l1) \<le> (if clause_id c = i \<and> needs_references c then 1 else 0)"
    by simp
  from Cons.IH [of "Suc k" st1] r
  have b: "length (filter (is_legal_for i) l2)
     \<le> length (filter (\<lambda>c. clause_id c = i \<and> needs_references c) cs)" by simp
  from a b f r show ?case by (simp split: if_splits)
qed

lemma enrich_from_cache_blind:
  "fst (enrich_from ty envs k cs st) = fst (enrich_from ty envs k cs st')"
proof (induction cs arbitrary: k st st')
  case Nil
  then show ?case by simp
next
  case (Cons c cs)
  obtain l1 st1 where f: "fetchForClause ty (envs k) c st = (l1, st1)"
    by (cases "fetchForClause ty (envs k) c st")
  obtain l1' st1' where f': "fetchForClause ty (envs k) c st' = (l1', st1')"
    by (cases "fetchForClause ty (envs k) c st'")
  obtain l2 st2 where r: "enrich_from ty envs (Suc k) cs st1 = (l2, st2)"
    by (cases "enrich_from ty envs (Suc k) cs st1")
  obtain l2' st2' where r': "enrich_from ty envs (Suc k) cs st1' = (l2', st2')"
    by (cases "enrich_from ty envs (Suc k) cs st1'")
  from fetchForClause_requests(3) [of ty "envs k" c st st'] f f' have "l1 = l1'" by simp
  moreover from Cons.IH [of "Suc k" st1 st1'] r r' have "l2 = l2'" by simp
  ultimately show ?case using f f' r r' by simp
qed

lemma distinct_ids_filter:
  "distinct (map clause_id cs) \<Longrightarrow> length (filter (\<lambda>c. clause_id c = i \<and> P c) cs) \<le> 1"
proof (induction cs)
  case Nil
  then show ?case by simp
next
  case (Cons c cs)
  show ?case
  proof (cases "clause_id c = i")
    case True
    with Cons.prems have "i \<notin> clause_id ` set cs" by simp
    then have "\<forall>c'\<in>set cs. clause_id c' \<noteq> i" by blast
    then have "filter (\<lambda>c. clause_id c = i \<and> P c) cs = []"
      by (simp add: filter_empty_conv)
    then show ?thesis by simp
  next
    case False
    with Cons show ?thesis by simp
  qed
qed

text \<open>
  C5 (as amended).  In one run of the enrichment effect, the what-if requests sent for
  a clause id are exactly the clauses of the list with that id that have text and carry
  no scenarios, and the legal-reference requests sent for it are at most the clauses with
  that id that have text and carry no legal references; so when the ids of the list are
  distinct, a run sends at most one request of each kind per clause id.  The requests of
  a run are the same whatever the caches hold: nothing is deduplicated across runs.
\<close>

theorem enrich_effect_per_run:
  "length (filter (is_whatif_for i) (fst (enrich_effect ty envs cs st)))
     = length (filter (\<lambda>c. clause_id c = i \<and> needs_scenarios c) cs)
   \<and> length (filter (is_legal_for i) (fst (enrich_effect ty envs cs st)))
     \<le> length (filter (\<lambda>c. clause_id c = i \<and> needs_references c) cs)
   \<and> fst (enrich_effect ty envs cs st) = fst (enrich_effect ty envs cs st')
   \<and> (distinct (map clause_id cs) \<longrightarrow>
        length (filter (is_whatif_for i) (fst (enrich_effect ty envs cs st))) \<le> 1
      \<and> length (filter (is_legal_for i) (fst (enrich_effect ty envs cs st))) \<le> 1)"
proof -
  have w: "length (filter (is_whatif_for i) (fst (enrich_effect ty envs cs st)))
     = length (filter (\<lambda>c. clause_id c = i \<and> needs_scenarios c) cs)"
    unfolding enrich_effect_def by (rule enrich_from_whatif)
  have g: "length (filter (is_legal_for i) (fst (enrich_effect ty envs cs st)))
     \<le> length (filter (\<lambda>c. clause_id c = i \<and> needs_references c) cs)"
    unfolding enrich_effect_def by (rule enrich_from_legal)
  have b: "fst (enrich_effect ty envs cs st) = fst (enrich_effect ty envs cs st')"
    unfolding enrich_effect_def by (rule enrich_from_cache_blind)
  have d: "length (filter (is_whatif_for i) (fst (enrich_effect ty envs cs st))) \<le> 1
      \<and> length (filter (is_legal_for i) (fst (enrich_effect ty envs cs st))) \<le> 1"
    if "distinct (map clause_id cs)"
    using w g distinct_ids_filter [OF that, of i needs_scenarios]
      distinct_ids_filter [OF that, of i needs_references]
    by linarith
  from w g b d show ?thesis by blast
qed

theorem enrich_effect_per_run_witness:
  "distinct (map clause_id [clause1, clause2])
   \<and> length (filter (is_whatif_for ''c1'') (fst (enrich_effect ''Contract'' (\<lambda>k. env_ok) [clause1, clause2] cv_empty))) \<le> 1
   \<and> length (filter (is_legal_for ''c1'') (fst (enrich_effect ''Contract'' (\<lambda>k. env_ok) [clause1, clause2] cv_empty))) \<le> 1"
proof -
  have d: "distinct (map clause_id [clause1, clause2])"
    by (simp add: clause1_def clause2_def)
  from enrich_effect_per_run [of "''c1''" "''Contract''" "\<lambda>k. env_ok" "[clause1, clause2]" cv_empty cv_empty] d
  show ?thesis by blast
qed

text \<open>
  C5 (counterexample).  The effect runs for the clauses \<open>c1, c2\<close> and caches the
  scenarios of \<open>c1\<close>; the clause list then changes to \<open>c1\<close> alone (the component stays
  mounted) and the effect runs again: a second what-if request is sent for \<open>c1\<close>.
\<close>

theorem enrichment_refetch_counterexample:
  "length (filter (is_whatif_for ''c1'')
      (fst (enrich_effect ''Contract'' (\<lambda>k. env_ok) [clause1, clause2] cv_empty)
       @ fst (enrich_effect ''Contract'' (\<lambda>k. env_ok) [clause1]
               (snd (enrich_effect ''Contract'' (\<lambda>k. env_ok) [clause1, clause2] cv_empty))))) = 2
   \<and> scenariosById (snd (enrich_effect ''Contract'' (\<lambda>k. env_ok) [clause1, clause2] cv_empty)) ''c1''
       = Some [JStr ''what if rent is late'']"
  by (simp add: enrich_effect_def fetchForClause_def fetch_scenarios_def fetch_references_def
      clause1_def clause2_def env_ok_def cv_empty_def)

section \<open>Properties of undo\<close>

text \<open>
  C8.  The undo handler sends one request, the undo of exactly the given clause ids for
  the given document, whatever the answer will be.  When the request succeeds, the
  clauses whose id is among the given ids, and only those, leave the local clause list
  (the others stay, in order), and the flag of the document becomes unpersisted; nothing
  else changes.  When the request fails, by a non-OK response or a rejected promise, the
  state is unchanged.  After a persist that returned ids, pressing undo on its toast
  sends the undo of exactly those ids: on success the flag set by the persist is back to
  unpersisted and the clauses with those ids are gone; on failure the clause list and
  the flags stay as the persist left them.
\<close>

theorem undo_all_or_nothing:
  "fst (undo documentId ids resp s) = [PostUndo documentId ids]
   \<and> clauses (snd (undo documentId ids UndoOk s))
       = filter (\<lambda>c. clause_id c \<notin> set ids) (clauses s)
   \<and> set (clauses (snd (undo documentId ids UndoOk s)))
       = {c \<in> set (clauses s). clause_id c \<notin> set ids}
   \<and> set (map clause_id (clauses (snd (undo documentId ids UndoOk s))))
       = set (map clause_id (clauses s)) - set ids
   \<and> persistedByDocument (snd (undo documentId ids UndoOk s))
       = (persistedByDocument s)(documentId \<mapsto> False)
   \<and> showVisualizer (snd (undo documentId ids UndoOk s)) = showVisualizer s
   \<and> highlights (snd (undo documentId ids UndoOk s)) = highlights s
   \<and> toast (snd (undo documentId ids UndoOk s)) = toast s
   \<and> snd (undo documentId ids UndoNotOk s) = s
   \<and> snd (undo documentId ids (UndoThrow e) s) = s
   \<and> (inserted_ids inserted \<noteq> [] \<longrightarrow>
        persistedByDocument (onPersist documentId t inserted s) documentId = Some True
      \<and> press_toast_action resp (onPersist documentId t inserted s)
          = undo documentId (inserted_ids inserted) resp
              ((onPersist documentId t inserted s)\<lparr>toast := None\<rparr>)
      \<and> fst (press_toast_action resp (onPersist documentId t inserted s))
          = [PostUndo documentId (inserted_ids inserted)]
      \<and> persistedByDocument
            (snd (press_toast_action UndoOk (onPersist documentId t inserted s))) documentId
          = Some False
      \<and> clauses (snd (press_toast_action UndoOk (onPersist documentId t inserted s)))
          = filter (\<lambda>c. clause_id c \<notin> set (inserted_ids inserted)) (clauses s)
      \<and> snd (press_toast_action UndoNotOk (onPersist documentId t inserted s))
          = (onPersist documentId t inserted s)\<lparr>toast := None\<rparr>
      \<and> snd (press_toast_action (UndoThrow e) (onPersist documentId t inserted s))
          = (onPersist documentId t inserted s)\<lparr>toast := None\<rparr>)"
proof -
  have req: "fst (undo documentId ids resp s) = [PostUndo documentId ids]"
    by (simp add: undo_def)
  have ok: "clauses (snd (undo documentId ids UndoOk s))
            = filter (\<lambda>c. clause_id c \<notin> set ids) (clauses s)"
    by (simp add: undo_def)
  have ids: "set (map clause_id (filter (\<lambda>c. clause_id c \<notin> set ids) cs))
             = set (map clause_id cs) - set ids" for cs
    by (induction cs) auto
  have rest: "persistedByDocument (snd (undo documentId ids UndoOk s))
       = (persistedByDocument s)(documentId \<mapsto> False)
   \<and> showVisualizer (snd (undo documentId ids UndoOk s)) = showVisualizer s
   \<and> highlights (snd (undo documentId ids UndoOk s)) = highlights s
   \<and> toast (snd (undo documentId ids UndoOk s)) = toast s
   \<and> snd (undo documentId ids UndoNotOk s) = s
   \<and> snd (undo documentId ids (UndoThrow e) s) = s"
    by (simp add: undo_def)
  have round: "persistedByDocument (onPersist documentId t inserted s) documentId = Some True
      \<and> press_toast_action resp (onPersist documentId t inserted s)
          = undo documentId (inserted_ids inserted) resp
              ((onPersist documentId t inserted s)\<lparr>toast := None\<rparr>)
      \<and> fst (press_toast_action resp (onPersist documentId t inserted s))
          = [PostUndo documentId (inserted_ids inserted)]
      \<and> persistedByDocument
            (snd (press_toast_action UndoOk (onPersist documentId t inserted s))) documentId
          = Some False
      \<and> clauses (snd (press_toast_action UndoOk (onPersist documentId t inserted s)))
          = filter (\<lambda>c. clause_id c \<notin> set (inserted_ids inserted)) (clauses s)
      \<and> snd (press_toast_action UndoNotOk (onPersist documentId t inserted s))
          = (onPersist documentId t inserted s)\<lparr>toast := None\<rparr>
      \<and> snd (press_toast_action (UndoThrow e) (onPersist documentId t inserted s))
          = (onPersist documentId t inserted s)\<lparr>toast := None\<rparr>"
    if "inserted_ids inserted \<noteq> []"
    using that by (simp add: onPersist_def press_toast_action_def undo_def Let_def)
  from req ok ids [of "clauses s"] rest round show ?thesis
    by (simp only:) auto
qed

theorem undo_all_or_nothing_witness:
  "inserted_ids [clause2] \<noteq> []
   \<and> fst (press_toast_action UndoOk
           (onPersist ''d2'' \<lparr>date_now = 7, date_iso = ''t''\<rparr> [clause2] ci_example))
       = [PostUndo ''d2'' [''c2'']]
   \<and> persistedByDocument
        (snd (press_toast_action UndoOk
           (onPersist ''d2'' \<lparr>date_now = 7, date_iso = ''t''\<rparr> [clause2] ci_example))) ''d2''
       = Some False
   \<and> clauses (snd (press_toast_action UndoOk
           (onPersist ''d2'' \<lparr>date_now = 7, date_iso = ''t''\<rparr> [clause2] ci_example)))
       = [clause1]
   \<and> clauses (snd (press_toast_action UndoNotOk
        (onPersist ''d2'' \<lparr>date_now = 7, date_iso = ''t''\<rparr> [clause2] ci_example)))
       = [clause1, clause2]
   \<and> persistedByDocument (snd (press_toast_action UndoNotOk
        (onPersist ''d2'' \<lparr>date_now = 7, date_iso = ''t''\<rparr> [clause2] ci_example))) ''d2''
       = Some True"
proof -
  let ?P = "onPersist ''d2'' \<lparr>date_now = 7, date_iso = ''t''\<rparr> [clause2] ci_example"
  have ne: "inserted_ids [clause2] \<noteq> []" and i: "inserted_ids [clause2] = [''c2'']"
    by (simp_all add: inserted_ids_def clause2_def)
  have f: "filter (\<lambda>c. clause_id c \<noteq> ''c2'') (clauses ci_example) = [clause1]"
    by (simp add: clause2_def clause1_def ci_example_def)
  have c: "clauses ?P = [clause1, clause2]"
    by (simp add: onPersist_def Let_def ci_example_def)
  note th = undo_all_or_nothing [where documentId = "''d2''" and ids = "inserted_ids [clause2]"
      and s = ci_example and inserted = "[clause2]"
      and t = "\<lparr>date_now = 7, date_iso = ''t''\<rparr>" and e = "''x''"]
  from th [where resp = UndoOk] ne
  have r1: "fst (press_toast_action UndoOk ?P) = [PostUndo ''d2'' (inserted_ids [clause2])]
   \<and> persistedByDocument (snd (press_toast_action UndoOk ?P)) ''d2'' = Some False
   \<and> clauses (snd (press_toast_action UndoOk ?P))
       = filter (\<lambda>c. clause_id c \<notin> set (inserted_ids [clause2])) (clauses ci_example)
   \<and> snd (press_toast_action UndoNotOk ?P) = ?P\<lparr>toast := None\<rparr>
   \<and> persistedByDocument ?P ''d2'' = Some True"
    by blast
  from r1 have r2: "fst (press_toast_action UndoOk ?P) = [PostUndo ''d2'' [''c2'']]
   \<and> persistedByDocument (snd (press_toast_action UndoOk ?P)) ''d2'' = Some False
   \<and> clauses (snd (press_toast_action UndoOk ?P)) = [clause1]
   \<and> snd (press_toast_action UndoNotOk ?P) = ?P\<lparr>toast := None\<rparr>
   \<and> persistedByDocument ?P ''d2'' = Some True"
    by (simp add: i f)
  from r2 ne c show ?thesis
    by simp
qed

end
